theory Spec2Isabelle
  imports Complex_Main
begin

section \<open>Conventions\<close>

text \<open>
  The repository holds several variants of one chat bot. Each modelled function keeps its
  source name; where two variants define the same name, the variant is told by a suffix:
  \<^item> no suffix: the variant of \<^verbatim>\<open>src/unnamed/part_002\<close> (types.ts, config.ts,
    personality-traits.ts, roast-bot.ts);
  \<^item> \<open>_ix\<close>: the class of \<^verbatim>\<open>src/index.ts\<close>;
  \<^item> \<open>_p4\<close>: the variant of \<^verbatim>\<open>src/unnamed/part_004\<close>;
  \<^item> \<open>_rb2\<close>: \<^verbatim>\<open>src/roastbot2.ts\<close>.

  A JavaScript string is a sequence of UTF-16 code units; it is modelled as the list of
  its code units, so that \<open>length\<close> is \<^verbatim>\<open>.length\<close>. A JavaScript number is modelled as a
  real (rounding and NaN are not modelled); \<^verbatim>\<open>Date.now()\<close> is an integer number of
  milliseconds and is passed to every function that reads the clock. A function that can
  throw returns a sum, \<open>Inl\<close> carrying the error.
\<close>

type_synonym jsstring = "nat list"

definition js :: "string \<Rightarrow> jsstring" where
  "js s = map of_char s"

datatype JSError = ZodError | TypeError | BackendError | RedisError | SyntaxError

text \<open>A line written by \<^verbatim>\<open>logger.error\<close> or \<^verbatim>\<open>console.error\<close>: the message and the error.\<close>

type_synonym log_entry = "jsstring \<times> JSError"

section \<open>JavaScript string methods\<close>

text \<open>\<^verbatim>\<open>s.startsWith(p)\<close>, \<^verbatim>\<open>s.endsWith(p)\<close> and \<^verbatim>\<open>s.includes(p)\<close>.\<close>

definition startsWith :: "jsstring \<Rightarrow> jsstring \<Rightarrow> bool" where
  "startsWith s p \<longleftrightarrow> take (length p) s = p"

definition endsWith :: "jsstring \<Rightarrow> jsstring \<Rightarrow> bool" where
  "endsWith s p \<longleftrightarrow> length p \<le> length s \<and> drop (length s - length p) s = p"

fun str_includes :: "jsstring \<Rightarrow> jsstring \<Rightarrow> bool" where
  "str_includes [] p \<longleftrightarrow> p = []"
| "str_includes (x # xs) p \<longleftrightarrow> startsWith (x # xs) p \<or> str_includes xs p"

text \<open>\<^verbatim>\<open>s.toLowerCase()\<close>, on the letters A to Z; a letter outside ASCII is left as it
  is (JavaScript lower-cases those too; no word list or command of the program has one).\<close>

definition toLowerCase :: "jsstring \<Rightarrow> jsstring" where
  "toLowerCase s = map (\<lambda>c. if 65 \<le> c \<and> c \<le> 90 then c + 32 else c) s"

text \<open>The code units that \<^verbatim>\<open>\s\<close> and \<^verbatim>\<open>trim\<close> take as white space (ECMAScript's
  WhiteSpace and LineTerminator).\<close>

definition is_space :: "nat \<Rightarrow> bool" where
  "is_space c \<longleftrightarrow>
     c \<in> {9, 10, 11, 12, 13, 32, 160, 5760, 8232, 8233, 8239, 8287, 12288, 65279}
     \<or> (8192 \<le> c \<and> c \<le> 8202)"

definition trim :: "jsstring \<Rightarrow> jsstring" where
  "trim s = rev (dropWhile is_space (rev (dropWhile is_space s)))"

text \<open>\<^verbatim>\<open>s.split(' ')\<close>, for the separator \<open>c\<close>: the pieces between the separators, empty
  pieces included; the empty string gives one empty piece.\<close>

fun split_unit :: "nat \<Rightarrow> jsstring \<Rightarrow> jsstring list" where
  "split_unit c [] = [[]]"
| "split_unit c (x # xs) =
     (if x = c then [] # split_unit c xs
      else (case split_unit c xs of [] \<Rightarrow> [[x]] | w # ws \<Rightarrow> (x # w) # ws))"

text \<open>\<^verbatim>\<open>s.split(/\s+/)\<close>: a run of white space is one separator.\<close>

function split_ws :: "jsstring \<Rightarrow> jsstring list" where
  "split_ws [] = [[]]"
| "split_ws (x # xs) =
     (if is_space x then [] # split_ws (dropWhile is_space xs)
      else (case split_ws xs of [] \<Rightarrow> [[x]] | w # ws \<Rightarrow> (x # w) # ws))"
  by pat_completeness auto
termination
  by (relation "measure length") (auto simp: le_imp_less_Suc length_dropWhile_le)

text \<open>\<^verbatim>\<open>s.replace(pattern, replacement)\<close> with a string pattern: the first occurrence is
  replaced. In the replacement, \<^verbatim>\<open>$$\<close> stands for a dollar sign, \<^verbatim>\<open>$&\<close> for the match,
  \<^verbatim>\<open>$`\<close> for the text before it and \<^verbatim>\<open>$'\<close> for the text after it.\<close>

fun find_first :: "jsstring \<Rightarrow> jsstring \<Rightarrow> (jsstring \<times> jsstring) option" where
  "find_first [] p = (if p = [] then Some ([], []) else None)"
| "find_first (x # xs) p =
     (if startsWith (x # xs) p then Some ([], drop (length p) (x # xs))
      else map_option (\<lambda>(pre, post). (x # pre, post)) (find_first xs p))"

fun getSubstitution :: "jsstring \<Rightarrow> jsstring \<Rightarrow> jsstring \<Rightarrow> jsstring \<Rightarrow> jsstring" where
  "getSubstitution matched pre post [] = []"
| "getSubstitution matched pre post [c] = [c]"
| "getSubstitution matched pre post (c # d # r) =
     (if c = 36 \<and> d = 36 then 36 # getSubstitution matched pre post r
      else if c = 36 \<and> d = 38 then matched @ getSubstitution matched pre post r
      else if c = 36 \<and> d = 96 then pre @ getSubstitution matched pre post r
      else if c = 36 \<and> d = 39 then post @ getSubstitution matched pre post r
      else c # getSubstitution matched pre post (d # r))"

definition replace :: "jsstring \<Rightarrow> jsstring \<Rightarrow> jsstring \<Rightarrow> jsstring" where
  "replace s pattern replacement =
     (case find_first s pattern of
        None \<Rightarrow> s
      | Some (pre, post) \<Rightarrow>
          pre @ getSubstitution pattern pre post replacement @ post)"

text \<open>\<^verbatim>\<open>xs[i]\<close> for an integer index: \<open>None\<close> is \<^verbatim>\<open>undefined\<close>.\<close>

definition at_index :: "'a list \<Rightarrow> int \<Rightarrow> 'a option" where
  "at_index xs i = (if 0 \<le> i \<and> i < int (length xs) then Some (xs ! nat i) else None)"

text \<open>A value in a template literal or a string concatenation: \<^verbatim>\<open>undefined\<close> prints as
  its name.\<close>

definition str_or_undefined :: "jsstring option \<Rightarrow> jsstring" where
  "str_or_undefined v = (case v of None \<Rightarrow> js ''undefined'' | Some s \<Rightarrow> s)"

text \<open>The emoji of the program's literals, as their surrogate pairs.\<close>

definition emoji_rolling_eyes :: jsstring where "emoji_rolling_eyes = [0xD83D, 0xDE44]"
definition emoji_thinking :: jsstring where "emoji_thinking = [0xD83E, 0xDD14]"
definition emoji_smile :: jsstring where "emoji_smile = [0xD83D, 0xDE04]"
definition emoji_angry :: jsstring where "emoji_angry = [0xD83D, 0xDE20]"
definition emoji_wink :: jsstring where "emoji_wink = [0xD83D, 0xDE09]"

section \<open>The in-memory rate limiter (part_002, roast-bot.ts)\<close>

definition RATE_LIMIT_WINDOW :: int where
  "RATE_LIMIT_WINDOW = 60000"

definition MAX_REQUESTS_PER_MINUTE :: nat where
  "MAX_REQUESTS_PER_MINUTE = 50"

text \<open>\<^verbatim>\<open>rateLimits: Map<string, number[]>\<close>.\<close>

type_synonym rateLimits = "jsstring \<rightharpoonup> int list"

text \<open>\<^verbatim>\<open>this.rateLimits.get(userId) || []\<close>: an array is truthy, so only a missing key
  gives the empty array.\<close>

definition userRequests :: "rateLimits \<Rightarrow> jsstring \<Rightarrow> int list" where
  "userRequests rl userId = (case rl userId of None \<Rightarrow> [] | Some ts \<Rightarrow> ts)"

definition checkRateLimit :: "int \<Rightarrow> jsstring \<Rightarrow> rateLimits \<Rightarrow> bool \<times> rateLimits" where
  "checkRateLimit now userId rl =
     (let recentRequests =
            filter (\<lambda>time. now - time < RATE_LIMIT_WINDOW) (userRequests rl userId)
      in if length recentRequests \<ge> MAX_REQUESTS_PER_MINUTE then (False, rl)
         else (True, rl(userId \<mapsto> recentRequests @ [now])))"

text \<open>The rate-limit loop of \<^verbatim>\<open>performMaintenance\<close>: every user's list is filtered, and
  a user whose list becomes empty is deleted.\<close>

definition performMaintenance_rateLimits :: "int \<Rightarrow> rateLimits \<Rightarrow> rateLimits" where
  "performMaintenance_rateLimits now rl =
     (\<lambda>userId. case rl userId of
          None \<Rightarrow> None
        | Some timestamps \<Rightarrow>
            (let validTimestamps = filter (\<lambda>time. now - time < RATE_LIMIT_WINDOW) timestamps
             in if length validTimestamps = 0 then None else Some validTimestamps))"

text \<open>A history of the limiter: calls of \<^verbatim>\<open>checkRateLimit\<close> and runs of the maintenance
  timer, each with the clock reading it sees. Neither body awaits, so each runs as a whole.
  \<open>admitted\<close> lists the admitted requests (clock reading and user) in order.\<close>

datatype call = CheckRateLimit jsstring | PerformMaintenance

fun admitted :: "rateLimits \<Rightarrow> (int \<times> call) list \<Rightarrow> (int \<times> jsstring) list" where
  "admitted rl [] = []"
| "admitted rl ((now, CheckRateLimit userId) # calls) =
     (case checkRateLimit now userId rl of
        (ok, rl') \<Rightarrow> (if ok then [(now, userId)] else []) @ admitted rl' calls)"
| "admitted rl ((now, PerformMaintenance) # calls) =
     admitted (performMaintenance_rateLimits now rl) calls"

text \<open>A clock reading lies in the trailing window that ends at \<open>t\<close>, by the test the
  code itself uses (\<^verbatim>\<open>now - time < RATE_LIMIT_WINDOW\<close>).\<close>

definition in_window :: "int \<Rightarrow> int \<Rightarrow> bool" where
  "in_window t time \<longleftrightarrow> t - time < RATE_LIMIT_WINDOW \<and> time \<le> t"

definition admitted_in_window :: "jsstring \<Rightarrow> int \<Rightarrow> (int \<times> jsstring) list \<Rightarrow> nat" where
  "admitted_in_window userId t adm =
     length (filter (\<lambda>(time, u). u = userId \<and> in_window t time) adm)"

section \<open>Shared data\<close>

text \<open>\<^verbatim>\<open>PersonalityTrait\<close>. The three declarations (index.ts, part_002, part_004) differ
  in \<^verbatim>\<open>conditions\<close> only: index.ts has none, part_002 has the optional \<^verbatim>\<open>minSentiment\<close>,
  \<^verbatim>\<open>maxSentiment\<close> and \<^verbatim>\<open>timeOfDay\<close>, part_004 adds \<^verbatim>\<open>userSensitivity\<close>. One record
  holds them all; an absent field is \<open>None\<close>.\<close>

record Conditions =
  minSentiment :: "real option"
  maxSentiment :: "real option"
  timeOfDay :: "real list option"
  userSensitivity :: "real option"

record PersonalityTrait =
  name :: jsstring
  level :: real
  responses :: "jsstring list"
  conditions :: "Conditions option"

text \<open>\<^verbatim>\<open>NLPAnalysis\<close>: the four fields of index.ts, and the four more of part_002.\<close>

record NLPAnalysis_ix =
  sentiment :: real
  topics :: "jsstring list"
  intent :: jsstring
  entities :: "jsstring list"

record NLPAnalysis = NLPAnalysis_ix +
  technicalComplexity :: real
  codeDetected :: bool
  languagesDetected :: "jsstring list"
  toxicity :: real

text \<open>A message: the three fields every variant has, then what index.ts and part_002 add.\<close>

record MessageCore =
  content :: jsstring
  userId :: jsstring
  userName :: jsstring

record Message_ix = MessageCore +
  mentions_ix :: "jsstring list"

record Message = MessageCore +
  mentions :: "jsstring list option"
  timestamp :: real

text \<open>\<^verbatim>\<open>BotState\<close>: the four fields that index.ts and part_002 both declare.\<close>

record BotStateCore =
  moodLevel :: real
  lastResponses :: "jsstring list"
  cooldowns :: "jsstring \<rightharpoonup> int"
  conversationHistory :: "jsstring list"

section \<open>The bot of index.ts\<close>

text \<open>\<^verbatim>\<open>Memory\<close>; its field \<^verbatim>\<open>context\<close> is written \<open>context_mem\<close>.\<close>

record Memory =
  shortTerm :: "jsstring list"
  longTerm :: "jsstring \<rightharpoonup> real"
  context_mem :: "jsstring list"

record OpenAIConfig =
  model :: jsstring
  maxTokens :: nat

record EnhancedBotState = BotStateCore +
  memory :: Memory
  personality_ix :: "PersonalityTrait list"
  learningRate :: real
  lastInteractionTime :: int
  commandPrefix :: jsstring
  debugMode :: bool
  openAIConfig :: OpenAIConfig

subsection \<open>The Redis server, for the keys the rate limiter counts in\<close>

text \<open>
  Modelled from the documented behaviour of the Redis commands INCR and EXPIRE: a key holds
  an integer and, once EXPIRE has been called on it, the instant (in milliseconds) at which
  the server deletes it. INCR of a missing key sets it to 1 and keeps the expiry of an
  existing one; EXPIRE returns 1 when the key exists and 0 otherwise. \<open>outcomes\<close> is the
  script of the coming commands: \<open>True\<close> says that the command fails (the promise is
  rejected) and does nothing; a command beyond the script succeeds.
\<close>

record Redis =
  entries :: "jsstring \<rightharpoonup> int \<times> int option"
  outcomes :: "bool list"

definition next_outcome :: "Redis \<Rightarrow> bool \<times> Redis" where
  "next_outcome r = (case outcomes r of [] \<Rightarrow> (False, r) | b # bs \<Rightarrow> (b, r\<lparr>outcomes := bs\<rparr>))"

definition redis_lookup :: "int \<Rightarrow> Redis \<Rightarrow> jsstring \<Rightarrow> (int \<times> int option) option" where
  "redis_lookup now r key =
     (case entries r key of
        None \<Rightarrow> None
      | Some (v, None) \<Rightarrow> Some (v, None)
      | Some (v, Some expiry) \<Rightarrow> if expiry \<le> now then None else Some (v, Some expiry))"

definition redis_incr :: "int \<Rightarrow> jsstring \<Rightarrow> Redis \<Rightarrow> (JSError + int) \<times> Redis" where
  "redis_incr now key r =
     (case next_outcome r of
        (True, r') \<Rightarrow> (Inl RedisError, r')
      | (False, r') \<Rightarrow>
          (case redis_lookup now r' key of
             None \<Rightarrow> (Inr 1, r'\<lparr>entries := (entries r')(key \<mapsto> (1, None))\<rparr>)
           | Some (v, expiry) \<Rightarrow>
               (Inr (v + 1), r'\<lparr>entries := (entries r')(key \<mapsto> (v + 1, expiry))\<rparr>)))"

definition redis_expire :: "int \<Rightarrow> jsstring \<Rightarrow> int \<Rightarrow> Redis \<Rightarrow> (JSError + int) \<times> Redis" where
  "redis_expire now key seconds r =
     (case next_outcome r of
        (True, r') \<Rightarrow> (Inl RedisError, r')
      | (False, r') \<Rightarrow>
          (case redis_lookup now r' key of
             None \<Rightarrow> (Inr 0, r')
           | Some (v, _) \<Rightarrow>
               (Inr 1, r'\<lparr>entries := (entries r')(key \<mapsto> (v, Some (now + seconds * 1000)))\<rparr>)))"

subsection \<open>The class\<close>

text \<open>The object: its \<^verbatim>\<open>state\<close>, its Redis connection, and the lines written to the
  logger and the console.\<close>

record RoastBot_ix =
  state_ix :: EnhancedBotState
  redis_ix :: Redis
  logged_ix :: "log_entry list"

definition cooldownDuration :: int where "cooldownDuration = 30000"
definition maxMoodLevel :: real where "maxMoodLevel = 10"
definition minMoodLevel :: real where "minMoodLevel = -10"

text \<open>The field initialiser of \<^verbatim>\<open>state\<close>; \<open>now\<close> is the clock at construction.\<close>

definition initial_state_ix :: "int \<Rightarrow> EnhancedBotState" where
  "initial_state_ix now =
     \<lparr> moodLevel = 0, lastResponses = [], cooldowns = Map.empty, conversationHistory = [],
       memory = \<lparr> shortTerm = [], longTerm = Map.empty, context_mem = [] \<rparr>,
       personality_ix =
         [ \<lparr> name = js ''sarcasm'', level = 0.8,
             responses =
               [ js ''Oh wow, {userName}, that's *totally* genius... '' @ emoji_rolling_eyes,
                 js ''Brilliant observation, {userName}. Did you figure that out all by yourself?'' ],
             conditions = None \<rparr>,
           \<lparr> name = js ''wit'', level = 0.7,
             responses =
               [ js ''I'd explain it to you, {userName}, but I'm all out of crayons.'',
                 js ''Your code is like a mystery novel, {userName}... full of bad practices and plot holes.'' ],
             conditions = None \<rparr> ],
       learningRate = 0.1,
       lastInteractionTime = now,
       commandPrefix = js ''!'',
       debugMode = False,
       openAIConfig = \<lparr> model = js ''gpt-4'', maxTokens = 150 \<rparr> \<rparr>"

definition initial_bot_ix :: "int \<Rightarrow> RoastBot_ix" where
  "initial_bot_ix now =
     \<lparr> state_ix = initial_state_ix now,
       redis_ix = \<lparr> entries = Map.empty, outcomes = [] \<rparr>,
       logged_ix = [] \<rparr>"

text \<open>\<^verbatim>\<open>lastUse ? Date.now() - lastUse < this.cooldownDuration : false\<close>: a missing entry
  and the number 0 are both falsy.\<close>

definition isUserInCooldown :: "int \<Rightarrow> jsstring \<Rightarrow> RoastBot_ix \<Rightarrow> bool" where
  "isUserInCooldown now uid self =
     (case cooldowns (state_ix self) uid of
        None \<Rightarrow> False
      | Some lastUse \<Rightarrow> if lastUse = 0 then False else now - lastUse < cooldownDuration)"

definition setCooldown :: "int \<Rightarrow> jsstring \<Rightarrow> RoastBot_ix \<Rightarrow> RoastBot_ix" where
  "setCooldown now uid self =
     self\<lparr>state_ix := (state_ix self)\<lparr>cooldowns := (cooldowns (state_ix self))(uid \<mapsto> now)\<rparr>\<rparr>"

text \<open>\<^verbatim>\<open>analyzeSentiment\<close>: half a point up for each positive word, half a point down for
  each negative one; the sum is returned as it is.\<close>

definition positiveWords_ix :: "jsstring list" where
  "positiveWords_ix = [js ''good'', js ''great'', js ''awesome'', js ''nice'', js ''love'']"

definition negativeWords_ix :: "jsstring list" where
  "negativeWords_ix = [js ''bad'', js ''terrible'', js ''hate'', js ''awful'', js ''worst'']"

definition analyzeSentiment :: "jsstring \<Rightarrow> real" where
  "analyzeSentiment text =
     (let words = split_unit 32 (toLowerCase text)
      in foldl (\<lambda>sentiment word.
                  (let s1 = (if word \<in> set positiveWords_ix then sentiment + 0.5 else sentiment)
                   in if word \<in> set negativeWords_ix then s1 - 0.5 else s1))
           0 words)"

definition extractTopics :: "jsstring \<Rightarrow> jsstring list" where
  "extractTopics text =
     filter (\<lambda>topic. str_includes (toLowerCase text) topic)
       [js ''code'', js ''bug'', js ''feature'', js ''error'', js ''testing'', js ''deployment'']"

definition detectIntent :: "jsstring \<Rightarrow> jsstring" where
  "detectIntent text =
     (if endsWith text (js ''?'') then js ''question''
      else if endsWith text (js ''!'') then js ''exclamation''
      else js ''statement'')"

text \<open>\<^verbatim>\<open>word.match(/^[A-Z][a-z]+/)\<close>: an upper-case letter, then a lower-case one.\<close>

definition matches_capitalised :: "jsstring \<Rightarrow> bool" where
  "matches_capitalised word =
     (case word of
        a # b # _ \<Rightarrow> 65 \<le> a \<and> a \<le> 90 \<and> 97 \<le> b \<and> b \<le> 122
      | _ \<Rightarrow> False)"

definition extractEntities :: "jsstring \<Rightarrow> jsstring list" where
  "extractEntities text = filter matches_capitalised (split_unit 32 text)"

text \<open>\<^verbatim>\<open>analyzeMessage\<close>: nothing in its \<^verbatim>\<open>try\<close> block can throw on a string, so the
  \<^verbatim>\<open>catch\<close> that logs and throws again is never entered.\<close>

definition analyzeMessage_ix :: "jsstring \<Rightarrow> NLPAnalysis_ix" where
  "analyzeMessage_ix text =
     \<lparr> sentiment = analyzeSentiment text,
       topics = extractTopics text,
       intent = detectIntent text,
       entities = extractEntities text \<rparr>"

definition updateMood :: "real \<Rightarrow> RoastBot_ix \<Rightarrow> RoastBot_ix" where
  "updateMood s self =
     self\<lparr>state_ix := (state_ix self)
       \<lparr>moodLevel := max minMoodLevel (min maxMoodLevel (moodLevel (state_ix self) + s))\<rparr>\<rparr>"

definition analyzeContext :: "'a MessageCore_scheme \<Rightarrow> RoastBot_ix \<Rightarrow> RoastBot_ix" where
  "analyzeContext message self =
     (let found = filter (\<lambda>topic. str_includes (toLowerCase (content message)) topic)
                    [js ''coding'', js ''debugging'', js ''testing'', js ''deployment''];
          st = state_ix self;
          mem = memory st
      in self\<lparr>state_ix := st\<lparr>memory := mem\<lparr>context_mem := context_mem mem @ found\<rparr>\<rparr>\<rparr>)"

definition updateMemory :: "'a MessageCore_scheme \<Rightarrow> RoastBot_ix \<Rightarrow> RoastBot_ix" where
  "updateMemory message self =
     (let st = state_ix self;
          mem = memory st;
          pushed = shortTerm mem @ [content message];
          shortTerm' = (if length pushed > 10 then tl pushed else pushed);
          currentCount = (case longTerm mem (userName message) of None \<Rightarrow> 0 | Some n \<Rightarrow> n);
          mem' = mem\<lparr>shortTerm := shortTerm',
                     longTerm := (longTerm mem)(userName message \<mapsto> currentCount + 1)\<rparr>
      in analyzeContext message (self\<lparr>state_ix := st\<lparr>memory := mem'\<rparr>\<rparr>))"

definition learn :: "'a NLPAnalysis_ix_scheme \<Rightarrow> RoastBot_ix \<Rightarrow> RoastBot_ix" where
  "learn analysis self =
     (let st = state_ix self
      in self\<lparr>state_ix := st\<lparr>personality_ix :=
           map (\<lambda>trait.
                  if \<exists>topic \<in> set (topics analysis).
                       \<exists>r \<in> set (responses trait). str_includes r topic
                  then trait\<lparr>level := level trait + learningRate st\<rparr>
                  else trait)
               (personality_ix st)\<rparr>\<rparr>)"

text \<open>\<^verbatim>\<open>find(trait => trait.name === moodFactor) || this.state.personality[0]\<close>: \<open>None\<close> is
  \<^verbatim>\<open>undefined\<close>, the value for an empty trait list.\<close>

definition selectPersonalityTrait_ix ::
  "'a NLPAnalysis_ix_scheme \<Rightarrow> RoastBot_ix \<Rightarrow> PersonalityTrait option" where
  "selectPersonalityTrait_ix analysis self =
     (let moodFactor = (if moodLevel (state_ix self) > 0 then js ''wit'' else js ''sarcasm'')
      in case find (\<lambda>trait. name trait = moodFactor) (personality_ix (state_ix self)) of
           Some trait \<Rightarrow> Some trait
         | None \<Rightarrow> at_index (personality_ix (state_ix self)) 0)"

text \<open>\<^verbatim>\<open>getRandomResponse\<close>; \<open>rnd\<close> is the value of \<^verbatim>\<open>Math.random()\<close>.\<close>

definition getRandomResponse :: "real \<Rightarrow> PersonalityTrait \<Rightarrow> jsstring option" where
  "getRandomResponse rnd trait =
     at_index (responses trait) \<lfloor>rnd * real (length (responses trait))\<rfloor>"

text \<open>\<^verbatim>\<open>applyMoodModifier\<close>; its argument may be \<^verbatim>\<open>undefined\<close>, which \<^verbatim>\<open>+\<close> prints.\<close>

definition applyMoodModifier :: "jsstring option \<Rightarrow> RoastBot_ix \<Rightarrow> jsstring option" where
  "applyMoodModifier response self =
     (if moodLevel (state_ix self) > 5 then Some (str_or_undefined response @ js '' '' @ emoji_smile)
      else if moodLevel (state_ix self) < -5 then Some (str_or_undefined response @ js '' '' @ emoji_angry)
      else response)"

definition generateResponse_ix ::
  "real \<Rightarrow> 'a MessageCore_scheme \<Rightarrow> 'b NLPAnalysis_ix_scheme \<Rightarrow> RoastBot_ix \<Rightarrow> JSError + jsstring" where
  "generateResponse_ix rnd message analysis self =
     (case selectPersonalityTrait_ix analysis self of
        None \<Rightarrow> Inl TypeError
      | Some trait \<Rightarrow>
          (case applyMoodModifier (getRandomResponse rnd trait) self of
             None \<Rightarrow> Inl TypeError
           | Some response \<Rightarrow> Inr (replace response (js ''{userName}'') (userName message))))"

text \<open>\<^verbatim>\<open>getStats\<close> and \<^verbatim>\<open>handleCommand\<close>. \<open>numToString\<close> is the conversion of a number to
  a string that a template literal applies.\<close>

definition getStats :: "(real \<Rightarrow> jsstring) \<Rightarrow> jsstring \<Rightarrow> RoastBot_ix \<Rightarrow> jsstring" where
  "getStats numToString uname self =
     (let interactions = (case longTerm (memory (state_ix self)) uname of None \<Rightarrow> 0 | Some n \<Rightarrow> n)
      in js ''Stats for '' @ uname @ js '':'' @ [10] @ js ''Interactions: ''
         @ numToString interactions @ [10] @ js ''Mood: ''
         @ numToString (moodLevel (state_ix self)))"

definition handleCommand ::
  "(real \<Rightarrow> jsstring) \<Rightarrow> 'a MessageCore_scheme \<Rightarrow> RoastBot_ix \<Rightarrow> jsstring" where
  "handleCommand numToString message self =
     (let parts = split_unit 32
                    (trim (drop (length (commandPrefix (state_ix self))) (content message)));
          command = toLowerCase (case parts of [] \<Rightarrow> [] | c # args \<Rightarrow> c)
      in if command = js ''mood''
           then js ''Current mood level: '' @ numToString (moodLevel (state_ix self))
         else if command = js ''stats'' then getStats numToString (userName message) self
         else js ''Unknown command. Try !mood or !stats'')"

text \<open>
  \<^verbatim>\<open>handleMessage\<close>. \<open>now\<close> is the clock read by \<^verbatim>\<open>isUserInCooldown\<close>, \<open>now'\<close> the
  clock read by \<^verbatim>\<open>setCooldown\<close>. \<open>handleMessage_try_ix\<close> is the \<^verbatim>\<open>try\<close> block, which can
  throw; the \<^verbatim>\<open>catch\<close> turns what it throws into a reply. The reply \<open>None\<close> is \<^verbatim>\<open>null\<close>.
\<close>

definition handleMessage_try_ix ::
  "(real \<Rightarrow> jsstring) \<Rightarrow> int \<Rightarrow> int \<Rightarrow> real \<Rightarrow> Message_ix \<Rightarrow> RoastBot_ix
   \<Rightarrow> (JSError + jsstring option) \<times> RoastBot_ix" where
  "handleMessage_try_ix numToString now now' rnd message self =
     (if isUserInCooldown now (userId message) self then (Inr None, self)
      else if startsWith (content message) (commandPrefix (state_ix self))
        then (Inr (Some (handleCommand numToString message self)), self)
      else
        (let analysis = analyzeMessage_ix (content message);
             self1 = updateMood (sentiment analysis) self;
             self2 = updateMemory message self1;
             self3 = learn analysis self2
         in case generateResponse_ix rnd message analysis self3 of
              Inl e \<Rightarrow> (Inl e, self3)
            | Inr response \<Rightarrow> (Inr (Some response), setCooldown now' (userId message) self3)))"

definition handleMessage_ix ::
  "(real \<Rightarrow> jsstring) \<Rightarrow> int \<Rightarrow> int \<Rightarrow> real \<Rightarrow> Message_ix \<Rightarrow> RoastBot_ix
   \<Rightarrow> (JSError + jsstring option) \<times> RoastBot_ix" where
  "handleMessage_ix numToString now now' rnd message self =
     (case handleMessage_try_ix numToString now now' rnd message self of
        (Inr reply, self') \<Rightarrow> (Inr reply, self')
      | (Inl e, self') \<Rightarrow>
          (Inr (Some (js ''Even I'm confused by that one... '' @ emoji_thinking
                      @ js '' Try again later!'')),
           self'\<lparr>logged_ix := logged_ix self' @ [(js ''Error processing message:'', e)]\<rparr>))"

subsection \<open>The Redis-backed rate limiter of index.ts\<close>

text \<open>\<^verbatim>\<open>incrementCounter\<close>: \<open>incrementCounter_try\<close> is its \<^verbatim>\<open>try\<close> block; the \<^verbatim>\<open>catch\<close>
  logs the error and returns 0.\<close>

definition incrementCounter_try :: "int \<Rightarrow> jsstring \<Rightarrow> RoastBot_ix \<Rightarrow> (JSError + int) \<times> RoastBot_ix" where
  "incrementCounter_try now key self =
     (case redis_incr now key (redis_ix self) of
        (Inl e, r) \<Rightarrow> (Inl e, self\<lparr>redis_ix := r\<rparr>)
      | (Inr count, r) \<Rightarrow>
          if count = 1 then
            (case redis_expire now key 60 r of
               (Inl e, r') \<Rightarrow> (Inl e, self\<lparr>redis_ix := r'\<rparr>)
             | (Inr _, r') \<Rightarrow> (Inr count, self\<lparr>redis_ix := r'\<rparr>))
          else (Inr count, self\<lparr>redis_ix := r\<rparr>))"

definition incrementCounter :: "int \<Rightarrow> jsstring \<Rightarrow> RoastBot_ix \<Rightarrow> int \<times> RoastBot_ix" where
  "incrementCounter now key self =
     (case incrementCounter_try now key self of
        (Inr count, self') \<Rightarrow> (count, self')
      | (Inl e, self') \<Rightarrow>
          (0, self'\<lparr>logged_ix := logged_ix self' @ [(js ''Redis increment error:'', e)]\<rparr>))"

text \<open>\<^verbatim>\<open>checkRateLimit\<close> of index.ts; its own \<^verbatim>\<open>expire\<close> is outside any \<^verbatim>\<open>try\<close>.\<close>

definition checkRateLimit_ix :: "int \<Rightarrow> jsstring \<Rightarrow> RoastBot_ix \<Rightarrow> (JSError + bool) \<times> RoastBot_ix" where
  "checkRateLimit_ix now uid self =
     (let key = js ''ratelimit:'' @ uid;
          limit = 5
      in case incrementCounter now key self of
           (count, self') \<Rightarrow>
             if count = 1 then
               (case redis_expire now key 60 (redis_ix self') of
                  (Inl e, r) \<Rightarrow> (Inl e, self'\<lparr>redis_ix := r\<rparr>)
                | (Inr _, r) \<Rightarrow> (Inr (count \<le> limit), self'\<lparr>redis_ix := r\<rparr>))
             else (Inr (count \<le> limit), self'))"

text \<open>The admitted requests of a history of calls of \<^verbatim>\<open>checkRateLimit\<close>, each with the
  clock reading at which the server runs its commands.\<close>

fun admitted_ix :: "RoastBot_ix \<Rightarrow> (int \<times> jsstring) list \<Rightarrow> (int \<times> jsstring) list" where
  "admitted_ix self [] = []"
| "admitted_ix self ((now, uid) # calls) =
     (case checkRateLimit_ix now uid self of
        (ok, self') \<Rightarrow> (if ok = Inr True then [(now, uid)] else []) @ admitted_ix self' calls)"

section \<open>Message validation (types.ts of part_002, roastbot2.ts)\<close>

text \<open>\<^verbatim>\<open>handleMessage(message: unknown)\<close> receives any JavaScript value. An object is the
  list of its properties, with distinct keys.\<close>

datatype jsval =
    JSUndefined | JSNull | JSBoolean bool | JSNumber real | JSString jsstring
  | JSArray "jsval list" | JSObject "(jsstring \<times> jsval) list"

text \<open>
  Modelled from the documented behaviour of the zod schemas the source builds:
  \<^verbatim>\<open>z.string()\<close> accepts strings only, \<^verbatim>\<open>.min(lo).max(hi)\<close> bound \<^verbatim>\<open>.length\<close>,
  \<^verbatim>\<open>z.array(z.string()).optional()\<close> accepts \<^verbatim>\<open>undefined\<close> or an array of strings,
  \<^verbatim>\<open>z.number().default(f)\<close> accepts a number and takes \<^verbatim>\<open>f()\<close> for \<^verbatim>\<open>undefined\<close>,
  \<^verbatim>\<open>z.object\<close> accepts objects only, reads a missing property as \<^verbatim>\<open>undefined\<close> and drops
  the properties it does not name; \<^verbatim>\<open>parse\<close> throws a ZodError when any part fails.
\<close>

definition get_prop :: "(jsstring \<times> jsval) list \<Rightarrow> jsstring \<Rightarrow> jsval" where
  "get_prop props key = (case map_of props key of None \<Rightarrow> JSUndefined | Some v \<Rightarrow> v)"

definition z_string :: "jsval \<Rightarrow> jsstring option" where
  "z_string v = (case v of JSString s \<Rightarrow> Some s | _ \<Rightarrow> None)"

definition z_string_min_max :: "nat \<Rightarrow> nat \<Rightarrow> jsval \<Rightarrow> jsstring option" where
  "z_string_min_max lo hi v =
     (case v of
        JSString s \<Rightarrow> if lo \<le> length s \<and> length s \<le> hi then Some s else None
      | _ \<Rightarrow> None)"

fun z_strings :: "jsval list \<Rightarrow> jsstring list option" where
  "z_strings [] = Some []"
| "z_strings (v # vs) =
     (case (z_string v, z_strings vs) of (Some s, Some ss) \<Rightarrow> Some (s # ss) | _ \<Rightarrow> None)"

definition z_array_string_optional :: "jsval \<Rightarrow> jsstring list option option" where
  "z_array_string_optional v =
     (case v of
        JSUndefined \<Rightarrow> Some None
      | JSArray vs \<Rightarrow> map_option Some (z_strings vs)
      | _ \<Rightarrow> None)"

definition z_number_default :: "real \<Rightarrow> jsval \<Rightarrow> real option" where
  "z_number_default d v = (case v of JSUndefined \<Rightarrow> Some d | JSNumber x \<Rightarrow> Some x | _ \<Rightarrow> None)"

text \<open>\<^verbatim>\<open>MessageSchema.parse\<close> of part_002 (content of 1 to 2000 code units).\<close>

definition MessageSchema_parse :: "int \<Rightarrow> jsval \<Rightarrow> JSError + Message" where
  "MessageSchema_parse now v =
     (case v of
        JSObject props \<Rightarrow>
          (case (z_string_min_max 1 2000 (get_prop props (js ''content'')),
                 z_string (get_prop props (js ''userId'')),
                 z_string (get_prop props (js ''userName'')),
                 z_array_string_optional (get_prop props (js ''mentions'')),
                 z_number_default (real_of_int now) (get_prop props (js ''timestamp''))) of
             (Some c, Some u, Some n, Some m, Some t) \<Rightarrow>
               Inr \<lparr> content = c, userId = u, userName = n, mentions = m, timestamp = t \<rparr>
           | _ \<Rightarrow> Inl ZodError)
      | _ \<Rightarrow> Inl ZodError)"

text \<open>\<^verbatim>\<open>MessageSchema.parse\<close> of roastbot2.ts (content of 1 to 1000 code units).\<close>

definition MessageSchema_parse_rb2 :: "jsval \<Rightarrow> JSError + MessageCore" where
  "MessageSchema_parse_rb2 v =
     (case v of
        JSObject props \<Rightarrow>
          (case (z_string_min_max 1 1000 (get_prop props (js ''content'')),
                 z_string (get_prop props (js ''userId'')),
                 z_string (get_prop props (js ''userName''))) of
             (Some c, Some u, Some n) \<Rightarrow> Inr \<lparr> content = c, userId = u, userName = n \<rparr>
           | _ \<Rightarrow> Inl ZodError)
      | _ \<Rightarrow> Inl ZodError)"

text \<open>The raw message a listener hands over: an object with the three string fields.\<close>

definition raw_message :: "jsstring \<Rightarrow> jsstring \<Rightarrow> jsstring \<Rightarrow> jsval" where
  "raw_message c u n =
     JSObject [(js ''content'', JSString c), (js ''userId'', JSString u),
               (js ''userName'', JSString n)]"

section \<open>The bot of part_002 (roast-bot.ts)\<close>

definition MAX_TOKENS :: nat where "MAX_TOKENS = 150"
definition DEFAULT_OPENAI_MODEL :: jsstring where "DEFAULT_OPENAI_MODEL = js ''gpt-4''"

definition PERSONALITY_TRAITS :: "PersonalityTrait list" where
  "PERSONALITY_TRAITS =
     [ \<lparr> name = js ''sarcastic'', level = 0.8,
         responses =
           [ js ''Oh wow, {userName}, that code is *just perfect*... if you're trying to crash the server ''
               @ emoji_rolling_eyes,
             js ''Interesting approach to {topic}... if by interesting you mean completely chaotic'',
             js ''Have you considered a career in modern art? Because this code is quite abstract'' ],
         conditions = Some \<lparr> minSentiment = Some (-0.5), maxSentiment = Some 0.5,
                             timeOfDay = None, userSensitivity = None \<rparr> \<rparr>,
       \<lparr> name = js ''technical'', level = 0.7,
         responses =
           [ js ''Your {language} implementation could use some design pattern love. Ever heard of {pattern}?'',
             js ''Let's talk about that O(n^2) complexity. I'm sure the server enjoys taking naps.'',
             js ''Interesting use of nested callbacks. Have you met our lord and savior, async/await?'' ],
         conditions = None \<rparr>,
       \<lparr> name = js ''encouraging'', level = 0.6,
         responses =
           [ js ''Not bad! But let's make it even better by {improvement}'',
             js ''You're on the right track with {concept}. Just needs a little tweaking.'',
             js ''I see what you're trying to do! Here's a pro tip: {tip}'' ],
         conditions = Some \<lparr> minSentiment = Some 0.3, maxSentiment = None,
                             timeOfDay = None, userSensitivity = None \<rparr> \<rparr> ]"

record BotMetrics =
  totalInteractions :: nat
  averageResponseTime :: real
  userSatisfactionScore :: real
  mostCommonTopics :: "jsstring \<rightharpoonup> nat"
  errorRate :: real
  activeUsers :: "jsstring set"

record BotState = BotStateCore +
  personality :: "PersonalityTrait list"
  metrics :: BotMetrics

text \<open>The object: its \<^verbatim>\<open>state\<close>, its \<^verbatim>\<open>rateLimits\<close> map, and the lines written to the
  logger.\<close>

record RoastBot =
  state :: BotState
  rateLimits :: rateLimits
  logged :: "log_entry list"

definition initializeState :: BotState where
  "initializeState =
     \<lparr> moodLevel = 0, lastResponses = [], cooldowns = Map.empty, conversationHistory = [],
       personality = PERSONALITY_TRAITS,
       metrics = \<lparr> totalInteractions = 0, averageResponseTime = 0, userSatisfactionScore = 0,
                   mostCommonTopics = Map.empty, errorRate = 0, activeUsers = {} \<rparr> \<rparr>"

definition initial_bot :: RoastBot where
  "initial_bot = \<lparr> state = initializeState, rateLimits = Map.empty, logged = [] \<rparr>"

text \<open>
  What the outside world answers during one call of \<^verbatim>\<open>handleMessage\<close>: the three clock
  readings (schema default, rate limiter, metrics key), the generative backend (for each
  request: the \<^verbatim>\<open>content\<close> of the first choice, \<open>None\<close> for \<^verbatim>\<open>null\<close>, or a failure of
  the call or of reading its reply), \<^verbatim>\<open>JSON.parse\<close> on the analysis reply,
  \<^verbatim>\<open>Math.random()\<close>, and whether \<^verbatim>\<open>redis.hset\<close> is rejected.
\<close>

record ChatRequest =
  messages :: "(jsstring \<times> jsstring) list"
  request_model :: jsstring
  max_tokens :: "nat option"

record AnalysisJSON =
  json_sentiment :: "real option"
  json_topics :: "jsstring list option"
  json_intent :: "jsstring option"
  json_entities :: "jsstring list option"
  json_technicalComplexity :: "real option"
  json_codeDetected :: "bool option"
  json_languagesDetected :: "jsstring list option"
  json_toxicity :: "real option"

record Env =
  clock_parse :: int
  clock_limit :: int
  clock_metrics :: int
  openai_create :: "ChatRequest \<Rightarrow> JSError + jsstring option"
  JSON_parse :: "jsstring \<Rightarrow> JSError + AnalysisJSON"
  math_random :: real
  hset_rejected :: bool

definition getFallbackAnalysis :: NLPAnalysis where
  "getFallbackAnalysis =
     \<lparr> sentiment = 0, topics = [], intent = js ''unknown'', entities = [],
       technicalComplexity = 0, codeDetected = False, languagesDetected = [], toxicity = 0 \<rparr>"

text \<open>\<^verbatim>\<open>x || d\<close> on an optional number, string, array and boolean: \<^verbatim>\<open>undefined\<close>, 0, the
  empty string and \<^verbatim>\<open>false\<close> are falsy, an array never is.\<close>

definition or_number :: "real option \<Rightarrow> real \<Rightarrow> real" where
  "or_number v d = (case v of None \<Rightarrow> d | Some x \<Rightarrow> if x = 0 then d else x)"

definition or_string :: "jsstring option \<Rightarrow> jsstring \<Rightarrow> jsstring" where
  "or_string v d = (case v of None \<Rightarrow> d | Some s \<Rightarrow> if s = [] then d else s)"

definition or_array :: "'a list option \<Rightarrow> 'a list \<Rightarrow> 'a list" where
  "or_array v d = (case v of None \<Rightarrow> d | Some xs \<Rightarrow> xs)"

definition or_boolean :: "bool option \<Rightarrow> bool \<Rightarrow> bool" where
  "or_boolean v d = (case v of None \<Rightarrow> d | Some b \<Rightarrow> if b then b else d)"

definition analysis_request :: "Message \<Rightarrow> ChatRequest" where
  "analysis_request message =
     \<lparr> messages =
         [ (js ''system'',
            js ''Analyze the following message for sentiment, technical complexity, and code presence. Return JSON.''),
           (js ''user'', content message) ],
       request_model = DEFAULT_OPENAI_MODEL,
       max_tokens = None \<rparr>"

definition analyzeMessage :: "Env \<Rightarrow> Message \<Rightarrow> RoastBot \<Rightarrow> NLPAnalysis \<times> RoastBot" where
  "analyzeMessage env message self =
     (case (case openai_create env (analysis_request message) of
              Inl e \<Rightarrow> Inl e
            | Inr reply \<Rightarrow> JSON_parse env (or_string reply (js ''{}''))) of
        Inr analysis \<Rightarrow>
          (\<lparr> sentiment = or_number (json_sentiment analysis) 0,
             topics = or_array (json_topics analysis) [],
             intent = or_string (json_intent analysis) (js ''unknown''),
             entities = or_array (json_entities analysis) [],
             technicalComplexity = or_number (json_technicalComplexity analysis) 0,
             codeDetected = or_boolean (json_codeDetected analysis) False,
             languagesDetected = or_array (json_languagesDetected analysis) [],
             toxicity = or_number (json_toxicity analysis) 0 \<rparr>,
           self)
      | Inl e \<Rightarrow>
          (getFallbackAnalysis, self\<lparr>logged := logged self @ [(js ''Analysis error:'', e)]\<rparr>))"

text \<open>\<^verbatim>\<open>selectPersonalityTrait\<close>. \<^verbatim>\<open>!trait.conditions?.minSentiment\<close> holds when the trait
  has no conditions, when the bound is absent, and when the bound is the number 0.\<close>

definition trait_matches :: "real \<Rightarrow> PersonalityTrait \<Rightarrow> bool" where
  "trait_matches s trait =
     ((case conditions trait of
         None \<Rightarrow> True
       | Some c \<Rightarrow> (case minSentiment c of None \<Rightarrow> True | Some m \<Rightarrow> m = 0 \<or> s \<ge> m))
      \<and>
      (case conditions trait of
         None \<Rightarrow> True
       | Some c \<Rightarrow> (case maxSentiment c of None \<Rightarrow> True | Some m \<Rightarrow> m = 0 \<or> s \<le> m)))"

definition selectPersonalityTrait :: "NLPAnalysis \<Rightarrow> RoastBot \<Rightarrow> PersonalityTrait option" where
  "selectPersonalityTrait analysis self =
     (case find (trait_matches (sentiment analysis)) (personality (state self)) of
        Some trait \<Rightarrow> Some trait
      | None \<Rightarrow> at_index (personality (state self)) 0)"

definition selectResponseTemplate :: "real \<Rightarrow> PersonalityTrait \<Rightarrow> NLPAnalysis \<Rightarrow> jsstring option" where
  "selectResponseTemplate rnd trait analysis =
     (let validResponses = filter (\<lambda>response. True) (responses trait);
          randomIndex = \<lfloor>rnd * real (length validResponses)\<rfloor>
      in at_index validResponses randomIndex)"

definition processResponse :: "jsstring \<Rightarrow> Message \<Rightarrow> jsstring" where
  "processResponse response message =
     trim (replace (replace response (js ''{userName}'') (userName message))
                   (js ''{topic}'') (js ''coding''))"

text \<open>\<^verbatim>\<open>getFallbackResponse\<close>: \<^verbatim>\<open>personality.responses[0]\<close> is \<^verbatim>\<open>undefined\<close> for a trait
  without responses, and \<^verbatim>\<open>replace\<close> on it throws.\<close>

definition getFallbackResponse :: "PersonalityTrait \<Rightarrow> JSError + jsstring" where
  "getFallbackResponse trait =
     (case at_index (responses trait) 0 of
        None \<Rightarrow> Inl TypeError
      | Some r \<Rightarrow>
          Inr (replace (replace r (js ''{userName}'') (js ''developer''))
                       (js ''{topic}'') (js ''coding'')))"

definition generation_request :: "PersonalityTrait \<Rightarrow> jsstring option \<Rightarrow> Message \<Rightarrow> ChatRequest" where
  "generation_request trait template message =
     \<lparr> messages =
         [ (js ''system'',
            js ''You are a code-roasting bot with a '' @ name trait @ js '' personality. ''
            @ [10] @ replicate 29 32
            @ js ''Respond to the user's message using this template: ''
            @ str_or_undefined template),
           (js ''user'', content message) ],
       request_model = DEFAULT_OPENAI_MODEL,
       max_tokens = Some MAX_TOKENS \<rparr>"

text \<open>\<^verbatim>\<open>generateResponse\<close>: the two selections are outside the \<^verbatim>\<open>try\<close> block (on an
  empty trait list \<^verbatim>\<open>selectResponseTemplate\<close> reads a property of \<^verbatim>\<open>undefined\<close>); a
  failure of the backend call is caught, logged and answered by the fallback.\<close>

definition generateResponse ::
  "Env \<Rightarrow> Message \<Rightarrow> NLPAnalysis \<Rightarrow> RoastBot \<Rightarrow> (JSError + jsstring) \<times> RoastBot" where
  "generateResponse env message analysis self =
     (case selectPersonalityTrait analysis self of
        None \<Rightarrow> (Inl TypeError, self)
      | Some trait \<Rightarrow>
          (let template = selectResponseTemplate (math_random env) trait analysis
           in case openai_create env (generation_request trait template message) of
                Inr reply \<Rightarrow> (Inr (processResponse (or_string reply []) message), self)
              | Inl e \<Rightarrow>
                  (getFallbackResponse trait,
                   self\<lparr>logged := logged self @ [(js ''Response generation error:'', e)]\<rparr>)))"

definition updateMetrics ::
  "Env \<Rightarrow> Message \<Rightarrow> NLPAnalysis \<Rightarrow> jsstring \<Rightarrow> RoastBot \<Rightarrow> (JSError + unit) \<times> RoastBot" where
  "updateMetrics env message analysis response self =
     (let m = metrics (state self);
          counted = foldl (\<lambda>tc topic.
                             tc(topic \<mapsto> (case tc topic of None \<Rightarrow> 0 | Some n \<Rightarrow> n) + 1))
                      (mostCommonTopics m) (topics analysis);
          m' = m\<lparr>totalInteractions := totalInteractions m + 1,
                 activeUsers := insert (userId message) (activeUsers m),
                 mostCommonTopics := counted\<rparr>;
          self' = self\<lparr>state := (state self)\<lparr>metrics := m'\<rparr>\<rparr>
      in (if hset_rejected env then Inl RedisError else Inr (), self'))"

text \<open>\<^verbatim>\<open>handleMessage\<close>: \<open>handleMessage_try\<close> is the \<^verbatim>\<open>try\<close> block, and the \<^verbatim>\<open>catch\<close>
  logs what it throws and answers with a fixed text.\<close>

definition handleMessage_try :: "Env \<Rightarrow> jsval \<Rightarrow> RoastBot \<Rightarrow> (JSError + jsstring) \<times> RoastBot" where
  "handleMessage_try env message self =
     (case MessageSchema_parse (clock_parse env) message of
        Inl e \<Rightarrow> (Inl e, self)
      | Inr validatedMessage \<Rightarrow>
          (case checkRateLimit (clock_limit env) (userId validatedMessage) (rateLimits self) of
             (False, rl) \<Rightarrow>
               (Inr (js ''You're sending messages too quickly. Please wait a moment.''),
                self\<lparr>rateLimits := rl\<rparr>)
           | (True, rl) \<Rightarrow>
               (case analyzeMessage env validatedMessage (self\<lparr>rateLimits := rl\<rparr>) of
                  (analysis, self1) \<Rightarrow>
                    (case generateResponse env validatedMessage analysis self1 of
                       (Inl e, self2) \<Rightarrow> (Inl e, self2)
                     | (Inr response, self2) \<Rightarrow>
                         (case updateMetrics env validatedMessage analysis response self2 of
                            (Inl e, self3) \<Rightarrow> (Inl e, self3)
                          | (Inr _, self3) \<Rightarrow> (Inr response, self3))))))"

definition handleMessage :: "Env \<Rightarrow> jsval \<Rightarrow> RoastBot \<Rightarrow> (JSError + jsstring) \<times> RoastBot" where
  "handleMessage env message self =
     (case handleMessage_try env message self of
        (Inr response, self') \<Rightarrow> (Inr response, self')
      | (Inl e, self') \<Rightarrow>
          (Inr (js ''Error processing message. But hey, at least it's not as bad as using PHP! ''
                @ emoji_wink),
           self'\<lparr>logged := logged self' @ [(js ''Message handling error:'', e)]\<rparr>))"

section \<open>The variant of part_004\<close>

subsection \<open>utils.ts\<close>

definition positiveWords :: "jsstring set" where
  "positiveWords =
     {js ''good'', js ''great'', js ''awesome'', js ''excellent'', js ''perfect'', js ''thanks''}"

definition negativeWords :: "jsstring set" where
  "negativeWords =
     {js ''bad'', js ''terrible'', js ''awful'', js ''horrible'', js ''wrong'', js ''stupid''}"

definition calculateSentiment :: "jsstring \<Rightarrow> real" where
  "calculateSentiment text =
     (let words = split_ws (toLowerCase text);
          sentiment =
            foldl (\<lambda>sentiment word.
                     (let s1 = (if word \<in> positiveWords then sentiment + 0.2 else sentiment)
                      in if word \<in> negativeWords then s1 - 0.2 else s1))
              0 words
      in max (min sentiment 1) (-1))"

subsection \<open>personality-traits.ts\<close>

definition PERSONALITY_TRAITS_p4 :: "PersonalityTrait list" where
  "PERSONALITY_TRAITS_p4 =
     [ \<lparr> name = js ''sarcasm'', level = 0.8,
         responses =
           [ js ''Oh wow, {userName}, that's *totally* genius... '' @ emoji_rolling_eyes
               @ js '' {codeComment}'',
             js ''Brilliant observation, {userName}. Did you figure that out all by yourself? {codeComment}'',
             js ''Your code is like a modern art masterpiece, {userName}... nobody understands it. {codeComment}'',
             js ''Have you considered a career in writing comedy? Because your code is hilarious. {codeComment}'' ],
         conditions = Some \<lparr> minSentiment = Some (-0.5), maxSentiment = Some 0.8,
                             timeOfDay = None, userSensitivity = Some 0.7 \<rparr> \<rparr>,
       \<lparr> name = js ''technical'', level = 0.9,
         responses =
           [ js ''Let me refactor that for you, {userName}. First, we'll need to address the {issue} in your code.'',
             js ''Interesting approach, {userName}. Have you considered using {betterPattern} instead?'',
             js ''Your code's complexity is reaching astronomical levels, {userName}. Time for some clean code principles?'',
             js ''That's an interesting use of {pattern}... if by interesting you mean potentially catastrophic.'' ],
         conditions = Some \<lparr> minSentiment = Some (-0.2), maxSentiment = Some 1.0,
                             timeOfDay = None, userSensitivity = Some 0.4 \<rparr> \<rparr>,
       \<lparr> name = js ''encouraging'', level = 0.6,
         responses =
           [ js ''Not bad, {userName}! But let's make it even better by {improvement}'',
             js ''You're getting there! Just need to tweak {issue} and you'll be golden.'',
             js ''I see what you're trying to do. Here's a pro tip: {tip}'',
             js ''Almost perfect! Just one small suggestion: {suggestion}'' ],
         conditions = Some \<lparr> minSentiment = Some 0.3, maxSentiment = Some 1.0,
                             timeOfDay = None, userSensitivity = Some 0.8 \<rparr> \<rparr> ]"

subsection \<open>The profile store of roast-bot.ts\<close>

definition DEFAULT_SENSITIVITY_LEVEL :: real where "DEFAULT_SENSITIVITY_LEVEL = 0.5"
definition USER_PROFILE_EXPIRY :: nat where "USER_PROFILE_EXPIRY = 86400 * 30"

text \<open>\<^verbatim>\<open>InteractionHistory\<close> and \<^verbatim>\<open>UserProfile\<close>; a field whose name another record has
  already taken carries the suffix \<open>_ih\<close> or \<open>_up\<close>.\<close>

record InteractionHistory =
  timestamp_ih :: int
  sentiment_ih :: real
  responseType :: jsstring
  messageContent :: jsstring
  botResponse :: jsstring

record ResponsePreferences =
  witLevel :: real
  sarcasmLevel :: real
  technicalLevel :: real

record UserProfile =
  userId_up :: jsstring
  userName_up :: jsstring
  sensitivityLevel :: real
  pastInteractions :: "InteractionHistory list"
  preferredTopics :: "jsstring list"
  lastInteraction :: int
  totalInteractions_up :: nat
  averageSentiment :: real
  responsePreferences :: ResponsePreferences

text \<open>
  \<^verbatim>\<open>JSON.parse\<close> returns \<^verbatim>\<open>any\<close>: for a stored text it gives a profile object or some other
  JSON value (\<^verbatim>\<open>null\<close>, a boolean, a number, a string, an array, an object that is no
  profile), and nothing checks which at run time. So the cache and the result of
  \<^verbatim>\<open>getUserProfile\<close> hold either. \<open>truthy\<close> is JavaScript's conversion to a boolean, as
  \<^verbatim>\<open>if (cachedProfile)\<close> applies it: \<^verbatim>\<open>null\<close>, \<^verbatim>\<open>false\<close>, 0 and the empty string are
  falsy, every object is truthy.
\<close>

datatype parsed_profile = Profile UserProfile | NotAProfile jsval

definition truthy :: "jsval \<Rightarrow> bool" where
  "truthy v =
     (case v of
        JSUndefined \<Rightarrow> False
      | JSNull \<Rightarrow> False
      | JSBoolean b \<Rightarrow> b
      | JSNumber x \<Rightarrow> x \<noteq> 0
      | JSString s \<Rightarrow> s \<noteq> []
      | JSArray vs \<Rightarrow> True
      | JSObject props \<Rightarrow> True)"

definition truthy_profile :: "parsed_profile \<Rightarrow> bool" where
  "truthy_profile p = (case p of Profile profile \<Rightarrow> True | NotAProfile v \<Rightarrow> truthy v)"

text \<open>
  The object: the \<^verbatim>\<open>userProfiles\<close> cache, the SET commands it has sent to the store (key,
  value, seconds to live; \<^verbatim>\<open>createNewUserProfile\<close> does not await them, so their outcome
  never reaches \<^verbatim>\<open>getUserProfile\<close>), and the lines written to the logger.
\<close>

record RoastBot_p4 =
  userProfiles :: "jsstring \<rightharpoonup> parsed_profile"
  redis_set_sent :: "(jsstring \<times> jsstring \<times> nat) list"
  logged_p4 :: "log_entry list"

text \<open>
  What the outside world answers during one call of \<^verbatim>\<open>getUserProfile\<close>: the clock, the
  store's reply to \<^verbatim>\<open>redis.get\<close> (\<open>Inr None\<close> is \<^verbatim>\<open>null\<close>, \<open>Inl\<close> a rejected command),
  \<^verbatim>\<open>JSON.parse\<close> on the stored text (a value, or a thrown SyntaxError) and
  \<^verbatim>\<open>JSON.stringify\<close> on a profile.
\<close>

record Env_p4 =
  clock_p4 :: int
  redis_get :: "jsstring \<Rightarrow> JSError + jsstring option"
  JSON_parse_profile :: "jsstring \<Rightarrow> JSError + parsed_profile"
  JSON_stringify :: "UserProfile \<Rightarrow> jsstring"

definition createNewUserProfile ::
  "Env_p4 \<Rightarrow> jsstring \<Rightarrow> RoastBot_p4 \<Rightarrow> parsed_profile \<times> RoastBot_p4" where
  "createNewUserProfile env uid self =
     (let profile =
            \<lparr> userId_up = uid, userName_up = [],
              sensitivityLevel = DEFAULT_SENSITIVITY_LEVEL,
              pastInteractions = [], preferredTopics = [],
              lastInteraction = clock_p4 env,
              totalInteractions_up = 0, averageSentiment = 0,
              responsePreferences =
                \<lparr> witLevel = 0.5, sarcasmLevel = 0.5, technicalLevel = 0.5 \<rparr> \<rparr>
      in (Profile profile,
          self\<lparr>userProfiles := (userProfiles self)(uid \<mapsto> Profile profile),
               redis_set_sent := redis_set_sent self
                 @ [(js ''user:'' @ uid, JSON_stringify env profile, USER_PROFILE_EXPIRY)]\<rparr>))"

text \<open>
  \<^verbatim>\<open>getUserProfile\<close>. The cache is tested by \<^verbatim>\<open>if (cachedProfile)\<close> and the stored text by
  \<^verbatim>\<open>if (storedProfile)\<close>: a missing or falsy cache entry goes on to the store, and a stored
  text that is \<^verbatim>\<open>null\<close> or empty goes on to a new profile. What \<^verbatim>\<open>JSON.parse\<close> returns is
  cached and returned as it is. Whatever the \<^verbatim>\<open>try\<close> block throws is logged and answered by
  a new profile.
\<close>

definition getUserProfile ::
  "Env_p4 \<Rightarrow> jsstring \<Rightarrow> RoastBot_p4 \<Rightarrow> parsed_profile \<times> RoastBot_p4" where
  "getUserProfile env uid self =
     (case (case userProfiles self uid of
              None \<Rightarrow> None
            | Some cachedProfile \<Rightarrow>
                if truthy_profile cachedProfile then Some cachedProfile else None) of
        Some cachedProfile \<Rightarrow> (cachedProfile, self)
      | None \<Rightarrow>
          (case redis_get env (js ''user:'' @ uid) of
             Inl e \<Rightarrow>
               createNewUserProfile env uid
                 (self\<lparr>logged_p4 := logged_p4 self @ [(js ''Error getting user profile:'', e)]\<rparr>)
           | Inr None \<Rightarrow> createNewUserProfile env uid self
           | Inr (Some storedProfile) \<Rightarrow>
               if storedProfile = [] then createNewUserProfile env uid self
               else
                 (case JSON_parse_profile env storedProfile of
                    Inl e \<Rightarrow>
                      createNewUserProfile env uid
                        (self\<lparr>logged_p4 := logged_p4 self
                                 @ [(js ''Error getting user profile:'', e)]\<rparr>)
                  | Inr profile \<Rightarrow>
                      (profile, self\<lparr>userProfiles := (userProfiles self)(uid \<mapsto> profile)\<rparr>))))"

section \<open>The selection policy in the words of the specification\<close>

text \<open>
  For the comparison with \<^verbatim>\<open>selectPersonalityTrait\<close>: a declared bound on the sentiment is
  satisfied when the sentiment is on the right side of it; a declared \<^verbatim>\<open>userSensitivity\<close> is
  satisfied when the profile's sensitivity level stands in the relation \<open>rel\<close> to it (the
  specification does not say which relation is meant; \<open>at_least\<close> and \<open>at_most\<close> are the two
  natural readings). The policy takes the first trait, in the order of the list, whose
  declared conditions are all satisfied, and the first trait of the list when there is none.
  A \<^verbatim>\<open>timeOfDay\<close> bears on neither the sentiment nor the sensitivity level; it is no part of
  the policy, and no table of the program declares one.
\<close>

definition sentiment_conditions_satisfied :: "real \<Rightarrow> PersonalityTrait \<Rightarrow> bool" where
  "sentiment_conditions_satisfied s trait =
     (case conditions trait of
        None \<Rightarrow> True
      | Some c \<Rightarrow>
          (case minSentiment c of None \<Rightarrow> True | Some m \<Rightarrow> m \<le> s)
          \<and> (case maxSentiment c of None \<Rightarrow> True | Some m \<Rightarrow> s \<le> m))"

definition sensitivity_condition_satisfied ::
  "(real \<Rightarrow> real \<Rightarrow> bool) \<Rightarrow> real \<Rightarrow> PersonalityTrait \<Rightarrow> bool" where
  "sensitivity_condition_satisfied rel sens trait =
     (case conditions trait of
        None \<Rightarrow> True
      | Some c \<Rightarrow> (case userSensitivity c of None \<Rightarrow> True | Some required \<Rightarrow> rel sens required))"


definition at_most :: "real \<Rightarrow> real \<Rightarrow> bool" where
  "at_most sens required \<longleftrightarrow> sens \<le> required"

definition all_conditions_satisfied ::
  "(real \<Rightarrow> real \<Rightarrow> bool) \<Rightarrow> real \<Rightarrow> real \<Rightarrow> PersonalityTrait \<Rightarrow> bool" where
  "all_conditions_satisfied rel s sens trait \<longleftrightarrow>
     sentiment_conditions_satisfied s trait \<and> sensitivity_condition_satisfied rel sens trait"

definition first_satisfied_or_first ::
  "(PersonalityTrait \<Rightarrow> bool) \<Rightarrow> PersonalityTrait list \<Rightarrow> PersonalityTrait option" where
  "first_satisfied_or_first satisfied traits =
     (case find satisfied traits of Some trait \<Rightarrow> Some trait | None \<Rightarrow> at_index traits 0)"

text \<open>No trait of the list declares the number 0 as a bound on the sentiment.\<close>

definition no_zero_bound :: "PersonalityTrait list \<Rightarrow> bool" where
  "no_zero_bound traits =
     list_all (\<lambda>trait. case conditions trait of
                          None \<Rightarrow> True
                        | Some c \<Rightarrow> minSentiment c \<noteq> Some 0 \<and> maxSentiment c \<noteq> Some 0) traits"

text \<open>No trait of the list declares a \<^verbatim>\<open>userSensitivity\<close>: the type \<^verbatim>\<open>PersonalityTrait\<close> of
  part_002 has no such field, so this holds of every trait list of that variant.\<close>

definition declares_no_sensitivity :: "PersonalityTrait list \<Rightarrow> bool" where
  "declares_no_sensitivity traits =
     list_all (\<lambda>trait. case conditions trait of
                          None \<Rightarrow> True
                        | Some c \<Rightarrow> userSensitivity c = None) traits"

section \<open>Verification\<close>

subsection \<open>The sliding window of the in-memory rate limiter\<close>

lemma admitted_times:
  "(x, v) \<in> set (admitted rl calls) \<Longrightarrow> x \<in> fst ` set calls"
  by (induction rl calls rule: admitted.induct)
     (auto simp: checkRateLimit_def Let_def split: if_splits)

lemma admitted_in_window_future:
  assumes "\<forall>x \<in> fst ` set calls. t < x"
  shows "admitted_in_window u t (admitted rl calls) = 0"
  using assms admitted_times[of _ _ rl calls]
  by (fastforce simp: admitted_in_window_def in_window_def filter_empty_conv)

lemma filter_window_recent:
  assumes "now \<le> t"
  shows "filter (\<lambda>time. now - time < RATE_LIMIT_WINDOW \<and> in_window t time) ts
         = filter (in_window t) ts"
  using assms by (induction ts) (auto simp: in_window_def)

lemma checkRateLimit_length:
  assumes "checkRateLimit now uid rl = (ok, rl')"
    and "\<forall>u. length (userRequests rl u) \<le> MAX_REQUESTS_PER_MINUTE"
  shows "length (userRequests rl' u) \<le> MAX_REQUESTS_PER_MINUTE"
  using assms
  by (auto simp: checkRateLimit_def Let_def userRequests_def split: if_splits)

lemma checkRateLimit_window:
  assumes "checkRateLimit now uid rl = (ok, rl')" and "now \<le> t"
  shows "length (filter (in_window t) (userRequests rl' u))
         = length (filter (in_window t) (userRequests rl u))
           + (if ok \<and> uid = u \<and> in_window t now then 1 else 0)"
proof (cases "ok \<and> uid = u")
  case True
  with assms(1) have "userRequests rl' u =
      filter (\<lambda>time. now - time < RATE_LIMIT_WINDOW) (userRequests rl u) @ [now]"
    by (auto simp: checkRateLimit_def Let_def userRequests_def split: if_splits)
  with True assms(2) show ?thesis
    by (simp add: filter_window_recent)
next
  case False
  with assms(1) have "userRequests rl' u = userRequests rl u"
    by (auto simp: checkRateLimit_def Let_def userRequests_def split: if_splits)
  with False show ?thesis by auto
qed

lemma performMaintenance_userRequests:
  "userRequests (performMaintenance_rateLimits now rl) u
   = filter (\<lambda>time. now - time < RATE_LIMIT_WINDOW) (userRequests rl u)"
  by (simp add: performMaintenance_rateLimits_def userRequests_def Let_def split: option.splits)

lemma stored_window_le:
  assumes "\<forall>u. length (userRequests rl u) \<le> MAX_REQUESTS_PER_MINUTE"
  shows "length (filter (in_window t) (userRequests rl u)) \<le> MAX_REQUESTS_PER_MINUTE"
proof -
  have "length (filter (in_window t) (userRequests rl u)) \<le> length (userRequests rl u)" by simp
  also have "\<dots> \<le> MAX_REQUESTS_PER_MINUTE" using assms by blast
  finally show ?thesis .
qed

text \<open>The invariant: no stored list is longer than the maximum. Under it, the stored
  readings of a user that lie in a window, and the requests of that user admitted from now
  on in the same window, are together at most the maximum.\<close>

lemma admitted_bound_gen:
  assumes "sorted (map fst calls)"
    and "\<forall>u. length (userRequests rl u) \<le> MAX_REQUESTS_PER_MINUTE"
  shows "length (filter (in_window t) (userRequests rl u))
           + admitted_in_window u t (admitted rl calls)
         \<le> MAX_REQUESTS_PER_MINUTE"
  using assms
proof (induction calls arbitrary: rl)
  case Nil
  then show ?case by (simp add: admitted_in_window_def stored_window_le)
next
  case (Cons c calls)
  obtain now ev where c: "c = (now, ev)" by (cases c)
  from Cons.prems(1) c have later: "\<forall>x \<in> fst ` set calls. now \<le> x"
    and sorted': "sorted (map fst calls)" by auto
  show ?case
  proof (cases "now \<le> t")
    case False
    then have "\<forall>x \<in> fst ` set (c # calls). t < x" using later c by auto
    then have "admitted_in_window u t (admitted rl (c # calls)) = 0"
      by (rule admitted_in_window_future)
    then show ?thesis using Cons.prems(2) by (simp add: stored_window_le)
  next
    case True
    show ?thesis
    proof (cases ev)
      case (CheckRateLimit uid)
      obtain ok rl' where step: "checkRateLimit now uid rl = (ok, rl')"
        by (cases "checkRateLimit now uid rl")
      have inv': "\<forall>u. length (userRequests rl' u) \<le> MAX_REQUESTS_PER_MINUTE"
        using checkRateLimit_length[OF step Cons.prems(2)] by blast
      have IH: "length (filter (in_window t) (userRequests rl' u))
                  + admitted_in_window u t (admitted rl' calls) \<le> MAX_REQUESTS_PER_MINUTE"
        by (rule Cons.IH[OF sorted' inv'])
      have "admitted_in_window u t (admitted rl (c # calls))
            = (if ok \<and> uid = u \<and> in_window t now then 1 else 0)
              + admitted_in_window u t (admitted rl' calls)"
        using step c CheckRateLimit
        by (simp add: admitted_in_window_def)
      with IH checkRateLimit_window[OF step True, of u] show ?thesis by simp
    next
      case PerformMaintenance
      let ?rl' = "performMaintenance_rateLimits now rl"
      have inv': "\<forall>u. length (userRequests ?rl' u) \<le> MAX_REQUESTS_PER_MINUTE"
      proof
        fix v
        have "length (userRequests ?rl' v) \<le> length (userRequests rl v)"
          by (simp add: performMaintenance_userRequests)
        also have "\<dots> \<le> MAX_REQUESTS_PER_MINUTE" using Cons.prems(2) by blast
        finally show "length (userRequests ?rl' v) \<le> MAX_REQUESTS_PER_MINUTE" .
      qed
      have IH: "length (filter (in_window t) (userRequests ?rl' u))
                  + admitted_in_window u t (admitted ?rl' calls) \<le> MAX_REQUESTS_PER_MINUTE"
        by (rule Cons.IH[OF sorted' inv'])
      then show ?thesis using c PerformMaintenance True
        by (simp add: performMaintenance_userRequests filter_window_recent)
    qed
  qed
qed

text \<open>
  Claim C1, as amended. Take any history of the in-memory limiter of part_002 from its empty
  start: calls of \<^verbatim>\<open>checkRateLimit\<close> for any users, and runs of the maintenance timer, with
  clock readings that never go back. Then for every user and every instant \<open>t\<close>, at most
  \<^verbatim>\<open>MAX_REQUESTS_PER_MINUTE\<close> (50) of the user's admitted requests lie in the 60 seconds that
  end at \<open>t\<close>.
\<close>

theorem checkRateLimit_window_bound:
  assumes "sorted (map fst calls)"
  shows "admitted_in_window uid t (admitted Map.empty calls) \<le> MAX_REQUESTS_PER_MINUTE"
  using admitted_bound_gen[OF assms, of Map.empty t uid]
  by (simp add: userRequests_def)

lemma js_u1: "js ''u1'' = [117, 49]"
  by (simp add: js_def)

lemma fifty_one_calls:
  "admitted_in_window (js ''u1'') 0
     (admitted Map.empty (replicate 51 (0, CheckRateLimit (js ''u1'')))) = 50"
  unfolding js_u1 by code_simp

text \<open>Fifty-one calls of one user at one instant: fifty are admitted.\<close>

theorem checkRateLimit_window_bound_witness:
  "sorted (map fst (replicate 51 (0 :: int, CheckRateLimit (js ''u1''))))
   \<and> admitted_in_window (js ''u1'') 0
        (admitted Map.empty (replicate 51 (0, CheckRateLimit (js ''u1'')))) = 50
   \<and> admitted_in_window (js ''u1'') 0
        (admitted Map.empty (replicate 51 (0, CheckRateLimit (js ''u1''))))
      \<le> MAX_REQUESTS_PER_MINUTE"
proof -
  have s: "sorted (map fst (replicate 51 (0 :: int, CheckRateLimit (js ''u1''))))"
    by simp
  from checkRateLimit_window_bound[OF s, of "js ''u1''" 0] s fifty_one_calls
  show ?thesis by simp
qed

text \<open>
  The clock must not go back. Fifty requests at 100000 ms, one at 200000 ms (which drops the
  fifty stored readings) and then, the clock set back, fifty more at 100001 ms: forty-nine
  of these are admitted, which makes ninety-nine admitted requests in the 60 seconds that end
  at 100001 ms.
\<close>

lemma checkRateLimit_clock_going_back:
  "admitted_in_window (js ''u1'') 100001
     (admitted Map.empty
        (replicate 50 (100000, CheckRateLimit (js ''u1''))
         @ [(200000, CheckRateLimit (js ''u1''))]
         @ replicate 50 (100001, CheckRateLimit (js ''u1'')))) = 99"
  unfolding js_u1 by code_simp

text \<open>
  \<^verbatim>\<open>checkRateLimit\<close> of index.ts keeps no timestamps: it counts in a Redis key that expires
  60 seconds after the request that created it, and admits while the count is at most 5. One
  request at 0 s, four at 59 s and, the key having expired, five more at 61 s are all
  admitted: nine of them within the 60 seconds that end at 61 s.
\<close>

theorem checkRateLimit_ix_window_exceeded:
  "admitted_in_window (js ''u1'') 61000
     (admitted_ix (initial_bot_ix 0)
        ((0, js ''u1'') # replicate 4 (59000, js ''u1'') @ replicate 5 (61000, js ''u1''))) = 9
   \<and> \<not> admitted_in_window (js ''u1'') 61000
     (admitted_ix (initial_bot_ix 0)
        ((0, js ''u1'') # replicate 4 (59000, js ''u1'') @ replicate 5 (61000, js ''u1''))) \<le> 5"
  by (simp add: admitted_in_window_def in_window_def RATE_LIMIT_WINDOW_def initial_bot_ix_def
        checkRateLimit_ix_def incrementCounter_def incrementCounter_try_def redis_incr_def
        redis_expire_def redis_lookup_def next_outcome_def Let_def numeral_eq_Suc)

subsection \<open>The mood level\<close>

lemma updateMood_bounds:
  "- 10 \<le> moodLevel (state_ix (updateMood s self))
   \<and> moodLevel (state_ix (updateMood s self)) \<le> 10"
  by (simp add: updateMood_def minMoodLevel_def maxMoodLevel_def)

lemma updateMood_foldl_bounds:
  assumes "- 10 \<le> moodLevel (state_ix self)" and "moodLevel (state_ix self) \<le> 10"
  shows "- 10 \<le> moodLevel (state_ix (foldl (\<lambda>b s. updateMood s b) self ss))
         \<and> moodLevel (state_ix (foldl (\<lambda>b s. updateMood s b) self ss)) \<le> 10"
proof (induction ss rule: rev_induct)
  case Nil
  then show ?case using assms by simp
next
  case (snoc s ss)
  show ?case using updateMood_bounds by simp
qed

text \<open>
  Claim C2. Starting from a mood level in [-10, 10], run \<^verbatim>\<open>updateMood\<close> over any list of
  sentiments: after each update, that is after the first \<open>n\<close> of them for every \<open>n\<close>, the
  mood level is in [-10, 10].
\<close>

theorem moodLevel_always_in_bounds:
  assumes "- 10 \<le> moodLevel (state_ix self)" and "moodLevel (state_ix self) \<le> 10"
  shows "- 10 \<le> moodLevel (state_ix (foldl (\<lambda>b s. updateMood s b) self (take n sentiments)))
         \<and> moodLevel (state_ix (foldl (\<lambda>b s. updateMood s b) self (take n sentiments))) \<le> 10"
  using assms by (rule updateMood_foldl_bounds)

theorem moodLevel_always_in_bounds_witness:
  "- 10 \<le> moodLevel (state_ix (initial_bot_ix 0))
   \<and> moodLevel (state_ix (initial_bot_ix 0)) \<le> 10
   \<and> moodLevel (state_ix (foldl (\<lambda>b s. updateMood s b) (initial_bot_ix 0)
        (take 3 [6, 6, - 0.5, 7]))) = 9.5"
  using moodLevel_always_in_bounds [of "initial_bot_ix 0" 3 "[6, 6, - 0.5, 7]"]
  by (simp add: initial_bot_ix_def initial_state_ix_def updateMood_def
        minMoodLevel_def maxMoodLevel_def)

subsection \<open>The sentiment score\<close>

text \<open>
  Claim C3, as amended. For every text, the score of \<^verbatim>\<open>calculateSentiment\<close> (utils.ts of
  part_004) lies in [-1, 1]: the sum of the weighted hits is clamped to that interval.
\<close>

theorem calculateSentiment_clamped:
  "- 1 \<le> calculateSentiment text \<and> calculateSentiment text \<le> 1"
  by (simp add: calculateSentiment_def Let_def)

text \<open>\<^verbatim>\<open>analyzeSentiment\<close> of index.ts returns the sum without clamping it: three positive
  words give 1.5.\<close>

theorem analyzeSentiment_unclamped:
  "analyzeSentiment (js ''great great great'') = 1.5
   \<and> \<not> (- 1 \<le> analyzeSentiment (js ''great great great'')
         \<and> analyzeSentiment (js ''great great great'') \<le> 1)"
  by (simp add: analyzeSentiment_def js_def toLowerCase_def positiveWords_ix_def
        negativeWords_ix_def)

subsection \<open>Message validation\<close>

text \<open>
  Claim C4, as amended. \<^verbatim>\<open>MessageSchema\<close> of part_002 accepts a message exactly when its
  content has 1 to 2000 code units: a content of length 2000 is accepted, one of length 2001
  or 0 is rejected with a ZodError. A rejected message goes no further: \<^verbatim>\<open>handleMessage\<close>
  answers with its error text and changes nothing but the log.
\<close>

theorem MessageSchema_content_length:
  "MessageSchema_parse now (raw_message c u n)
   = (if 1 \<le> length c \<and> length c \<le> 2000
      then Inr \<lparr> content = c, userId = u, userName = n, mentions = None,
                 timestamp = real_of_int now \<rparr>
      else Inl ZodError)
   \<and> (\<not> (1 \<le> length c \<and> length c \<le> 2000) \<longrightarrow>
        handleMessage env (raw_message c u n) self
        = (Inr (js ''Error processing message. But hey, at least it's not as bad as using PHP! ''
                @ emoji_wink),
           self\<lparr>logged := logged self @ [(js ''Message handling error:'', ZodError)]\<rparr>))"
proof -
  have parse: "MessageSchema_parse t (raw_message c u n)
      = (if 1 \<le> length c \<and> length c \<le> 2000
         then Inr \<lparr> content = c, userId = u, userName = n, mentions = None,
                    timestamp = real_of_int t \<rparr>
         else Inl ZodError)" for t
    by (simp add: MessageSchema_parse_def raw_message_def get_prop_def js_def
          z_string_min_max_def z_string_def z_array_string_optional_def z_number_default_def)
  have "handleMessage env (raw_message c u n) self
        = (Inr (js ''Error processing message. But hey, at least it's not as bad as using PHP! ''
                @ emoji_wink),
           self\<lparr>logged := logged self @ [(js ''Message handling error:'', ZodError)]\<rparr>)"
    if "\<not> (1 \<le> length c \<and> length c \<le> 2000)"
  proof -
    have "MessageSchema_parse (clock_parse env) (raw_message c u n) = Inl ZodError"
      unfolding parse using that by (rule if_not_P)
    then show ?thesis
      by (simp add: handleMessage_def handleMessage_try_def)
  qed
  with parse show ?thesis by blast
qed

theorem MessageSchema_content_length_witness:
  "\<not> (1 \<le> length (replicate 2001 (97 :: nat)) \<and> length (replicate 2001 (97 :: nat)) \<le> 2000)
   \<and> MessageSchema_parse 0 (raw_message (replicate 2001 97) (js ''123'') (js ''TestUser''))
     = Inl ZodError
   \<and> MessageSchema_parse 0 (raw_message (replicate 2000 97) (js ''123'') (js ''TestUser''))
     = Inr \<lparr> content = replicate 2000 97, userId = js ''123'', userName = js ''TestUser'',
              mentions = None, timestamp = 0 \<rparr>
   \<and> handleMessage
         \<lparr> clock_parse = 0, clock_limit = 0, clock_metrics = 0,
            openai_create = (\<lambda>request. Inl BackendError),
            JSON_parse = (\<lambda>text. Inl SyntaxError),
            math_random = 0, hset_rejected = False \<rparr>
         (raw_message (replicate 2001 97) (js ''123'') (js ''TestUser'')) initial_bot
     = (Inr (js ''Error processing message. But hey, at least it's not as bad as using PHP! ''
             @ emoji_wink),
        initial_bot\<lparr>logged := logged initial_bot
                      @ [(js ''Message handling error:'', ZodError)]\<rparr>)"
  using MessageSchema_content_length
          [of 0 "replicate 2001 97" "js ''123''" "js ''TestUser''"
              "\<lparr> clock_parse = 0, clock_limit = 0, clock_metrics = 0,
            openai_create = (\<lambda>request. Inl BackendError),
            JSON_parse = (\<lambda>text. Inl SyntaxError),
            math_random = 0, hset_rejected = False \<rparr>"
              initial_bot]
        MessageSchema_content_length
          [of 0 "replicate 2000 97" "js ''123''" "js ''TestUser''"
              "\<lparr> clock_parse = 0, clock_limit = 0, clock_metrics = 0,
            openai_create = (\<lambda>request. Inl BackendError),
            JSON_parse = (\<lambda>text. Inl SyntaxError),
            math_random = 0, hset_rejected = False \<rparr>"
              initial_bot]
  by simp

text \<open>\<^verbatim>\<open>MessageSchema\<close> of roastbot2.ts bounds the content by 1000: it rejects a content of
  length 2000.\<close>

theorem MessageSchema_rb2_rejects_2000:
  "MessageSchema_parse_rb2 (raw_message (replicate 2000 97) (js ''123'') (js ''TestUser''))
   = Inl ZodError"
  by (simp add: MessageSchema_parse_rb2_def raw_message_def get_prop_def js_def
        z_string_min_max_def z_string_def)

subsection \<open>Trait selection\<close>

lemma trait_matches_all_conditions:
  assumes "no_zero_bound traits" and "declares_no_sensitivity traits" and "trait \<in> set traits"
  shows "trait_matches s trait = all_conditions_satisfied rel s sens trait"
  using assms
  by (auto simp: no_zero_bound_def declares_no_sensitivity_def list_all_iff trait_matches_def
        all_conditions_satisfied_def sentiment_conditions_satisfied_def
        sensitivity_condition_satisfied_def split: option.splits)

lemma find_cong_set:
  assumes "\<And>x. x \<in> set xs \<Longrightarrow> P x = Q x"
  shows "find P xs = find Q xs"
  using assms by (induction xs) auto


text \<open>The selector is the policy of the specification, for every profile and every reading
  of the sensitivity condition.\<close>

lemma selectPersonalityTrait_policy:
  assumes "no_zero_bound (personality (state self))"
    and "declares_no_sensitivity (personality (state self))"
  shows "selectPersonalityTrait analysis self
         = first_satisfied_or_first
             (all_conditions_satisfied rel (sentiment analysis) sens)
             (personality (state self))"
proof -
  have "find (trait_matches (sentiment analysis)) (personality (state self))
        = find (all_conditions_satisfied rel (sentiment analysis) sens)
            (personality (state self))"
    by (rule find_cong_set) (rule trait_matches_all_conditions[OF assms])
  then show ?thesis
    by (simp add: selectPersonalityTrait_def first_satisfied_or_first_def)
qed

text \<open>The three conditions on the trait list hold of the table of part_002, and nothing in
  \<^verbatim>\<open>handleMessage\<close> writes \<^verbatim>\<open>state.personality\<close>: the table set by \<^verbatim>\<open>initializeState\<close> is the
  trait list of every call.\<close>

lemma PERSONALITY_TRAITS_conditions:
  "PERSONALITY_TRAITS \<noteq> [] \<and> no_zero_bound PERSONALITY_TRAITS
   \<and> declares_no_sensitivity PERSONALITY_TRAITS"
  by (simp add: PERSONALITY_TRAITS_def no_zero_bound_def declares_no_sensitivity_def)

lemma initial_bot_personality:
  "personality (state initial_bot) = PERSONALITY_TRAITS"
  by (simp add: initial_bot_def initializeState_def)

lemma analyzeMessage_keeps_personality:
  "analyzeMessage env message self = (analysis, self') \<Longrightarrow>
   personality (state self') = personality (state self)"
  by (auto simp: analyzeMessage_def split: sum.splits)

lemma generateResponse_keeps_personality:
  "generateResponse env message analysis self = (r, self') \<Longrightarrow>
   personality (state self') = personality (state self)"
  by (auto simp: generateResponse_def Let_def split: option.splits sum.splits)

lemma updateMetrics_keeps_personality:
  "updateMetrics env message analysis response self = (r, self') \<Longrightarrow>
   personality (state self') = personality (state self)"
  by (auto simp: updateMetrics_def Let_def)

lemma handleMessage_try_keeps_personality:
  "handleMessage_try env message self = (r, self') \<Longrightarrow>
   personality (state self') = personality (state self)"
  by (auto simp: handleMessage_try_def
        split: sum.splits prod.splits bool.splits
        dest!: analyzeMessage_keeps_personality generateResponse_keeps_personality
               updateMetrics_keeps_personality)

lemma handleMessage_keeps_personality:
  "personality (state (snd (handleMessage env message self))) = personality (state self)"
  by (cases "handleMessage_try env message self")
     (auto simp: handleMessage_def split: sum.splits dest: handleMessage_try_keeps_personality)

lemma selectPersonalityTrait_on_PERSONALITY_TRAITS:
  assumes "personality (state self) = PERSONALITY_TRAITS"
  shows "selectPersonalityTrait analysis self
         = first_satisfied_or_first
             (all_conditions_satisfied rel (sentiment analysis) sens) PERSONALITY_TRAITS"
  using selectPersonalityTrait_policy [of self analysis rel sens] PERSONALITY_TRAITS_conditions
  by (simp add: assms)

text \<open>The table of part_004, whose own selector is not in the sources, declares no bound 0
  either.\<close>

lemma PERSONALITY_TRAITS_p4_no_zero_bound:
  "no_zero_bound PERSONALITY_TRAITS_p4"
  by (simp add: PERSONALITY_TRAITS_p4_def no_zero_bound_def)



subsection \<open>The fallback of the response composer\<close>




subsection \<open>No error leaves \<^verbatim>\<open>handleMessage\<close>\<close>

lemma handleMessage_never_throws:
  "\<exists>text. fst (handleMessage env message self) = Inr text"
  by (simp add: handleMessage_def split: prod.splits sum.splits)

lemma handleMessage_ix_never_throws:
  "\<exists>reply. fst (handleMessage_ix numToString now now' rnd message self) = Inr reply
     \<and> (reply = None) = isUserInCooldown now (userId message) self"
  by (auto simp: handleMessage_ix_def handleMessage_try_ix_def Let_def
           split: prod.splits sum.splits)

text \<open>
  Claim C7, as amended. For every inbound value, valid or not, \<^verbatim>\<open>handleMessage\<close> of part_002
  returns a text and throws nothing. For every message, \<^verbatim>\<open>handleMessage\<close> of index.ts throws
  nothing either; it returns a text on every path but one: for a user in cooldown it returns
  \<^verbatim>\<open>null\<close>, and only then.
\<close>

theorem handleMessage_replies:
  "(\<exists>text. fst (handleMessage env message self) = Inr text)
   \<and> (\<exists>reply. fst (handleMessage_ix numToString now now' rnd message_ix self_ix) = Inr reply
         \<and> (reply = None) = isUserInCooldown now (userId message_ix) self_ix)"
  using handleMessage_never_throws handleMessage_ix_never_throws by blast

text \<open>A first message, at 1000 ms, on the bot as constructed: it is answered from the first
  template of the trait \<^verbatim>\<open>sarcasm\<close>, and the cooldown of its user starts at 1001 ms.\<close>

lemma hello_answered:
  "handleMessage_ix (\<lambda>x. js ''0'') 1000 1001 0
     \<lparr> content = js ''hello'', userId = js ''u1'', userName = js ''Tester'',
                    mentions_ix = [] \<rparr>
     (initial_bot_ix 0)
   = (Inr (Some (js ''Oh wow, Tester, that's *totally* genius... '' @ emoji_rolling_eyes)),
      setCooldown 1001 (js ''u1'')
        (learn (analyzeMessage_ix (js ''hello''))
          (updateMemory
             \<lparr> content = js ''hello'', userId = js ''u1'', userName = js ''Tester'',
                    mentions_ix = [] \<rparr>
             (updateMood 0 (initial_bot_ix 0)))))"
  by (simp add: handleMessage_ix_def handleMessage_try_ix_def initial_bot_ix_def
        initial_state_ix_def isUserInCooldown_def startsWith_def js_def analyzeMessage_ix_def
        analyzeSentiment_def toLowerCase_def positiveWords_ix_def negativeWords_ix_def
        updateMood_def updateMemory_def analyzeContext_def learn_def extractTopics_def
        detectIntent_def endsWith_def extractEntities_def matches_capitalised_def
        generateResponse_ix_def selectPersonalityTrait_ix_def at_index_def getRandomResponse_def
        applyMoodModifier_def replace_def setCooldown_def minMoodLevel_def maxMoodLevel_def
        Let_def emoji_rolling_eyes_def)

lemma setCooldown_isUserInCooldown:
  assumes "t \<noteq> 0" and "now - t < cooldownDuration"
  shows "isUserInCooldown now u (setCooldown t u self)"
  using assms by (simp add: isUserInCooldown_def setCooldown_def)

lemma commandPrefix_kept:
  "commandPrefix (state_ix (setCooldown t u (learn a (updateMemory m (updateMood s self)))))
   = commandPrefix (state_ix self)"
  by (simp add: setCooldown_def learn_def updateMemory_def analyzeContext_def updateMood_def
        Let_def)

text \<open>The same user writes again at 2000 ms, inside the cooldown of 30 seconds:
  \<^verbatim>\<open>handleMessage\<close> of index.ts returns \<^verbatim>\<open>null\<close>, no text.\<close>

theorem handleMessage_ix_cooldown_null:
  "fst (handleMessage_ix (\<lambda>x. js ''0'') 2000 2001 0
          \<lparr> content = js ''hello again'', userId = js ''u1'', userName = js ''Tester'',
            mentions_ix = [] \<rparr>
          (snd (handleMessage_ix (\<lambda>x. js ''0'') 1000 1001 0
                  \<lparr> content = js ''hello'', userId = js ''u1'', userName = js ''Tester'',
                    mentions_ix = [] \<rparr>
                  (initial_bot_ix 0))))
   = Inr None"
proof -
  have "isUserInCooldown 2000 (js ''u1'') (setCooldown 1001 (js ''u1'') self)" for self
    by (rule setCooldown_isUserInCooldown) (simp_all add: cooldownDuration_def)
  then show ?thesis
    unfolding hello_answered
    by (simp add: handleMessage_ix_def handleMessage_try_ix_def)
qed

text \<open>What the \<^verbatim>\<open>try\<close> blocks throw does reach the \<^verbatim>\<open>catch\<close>: with an empty trait list the
  block of index.ts throws a TypeError, and with a rejected \<^verbatim>\<open>hset\<close> the block of part_002
  throws the Redis error; both are answered by the fixed text.\<close>

lemma handleMessage_ix_catches_TypeError:
  "fst (handleMessage_try_ix numToString now now' rnd
     \<lparr> content = js ''hello'', userId = js ''u1'', userName = js ''Tester'',
                    mentions_ix = [] \<rparr>
     (initial_bot_ix 0\<lparr>state_ix := (initial_state_ix 0)\<lparr>personality_ix := []\<rparr>\<rparr>))
   = Inl TypeError
   \<and> fst (handleMessage_ix numToString now now' rnd
     \<lparr> content = js ''hello'', userId = js ''u1'', userName = js ''Tester'',
                    mentions_ix = [] \<rparr>
     (initial_bot_ix 0\<lparr>state_ix := (initial_state_ix 0)\<lparr>personality_ix := []\<rparr>\<rparr>))
     = Inr (Some (js ''Even I'm confused by that one... '' @ emoji_thinking
                  @ js '' Try again later!''))"
proof -
  have "fst (handleMessage_try_ix numToString now now' rnd
     \<lparr> content = js ''hello'', userId = js ''u1'', userName = js ''Tester'',
                    mentions_ix = [] \<rparr>
     (initial_bot_ix 0\<lparr>state_ix := (initial_state_ix 0)\<lparr>personality_ix := []\<rparr>\<rparr>))
   = Inl TypeError"
    by (simp add: handleMessage_try_ix_def initial_bot_ix_def initial_state_ix_def
          isUserInCooldown_def startsWith_def js_def generateResponse_ix_def
          selectPersonalityTrait_ix_def at_index_def Let_def learn_def updateMemory_def
          analyzeContext_def updateMood_def analyzeMessage_ix_def)
  then obtain self' where "handleMessage_try_ix numToString now now' rnd
     \<lparr> content = js ''hello'', userId = js ''u1'', userName = js ''Tester'',
                    mentions_ix = [] \<rparr>
     (initial_bot_ix 0\<lparr>state_ix := (initial_state_ix 0)\<lparr>personality_ix := []\<rparr>\<rparr>)
   = (Inl TypeError, self')"
    by (metis prod.collapse)
  then show ?thesis
    by (simp add: handleMessage_ix_def)
qed

lemma handleMessage_catches_RedisError:
  "fst (handleMessage_try
          \<lparr> clock_parse = 0, clock_limit = 0, clock_metrics = 0,
            openai_create = (\<lambda>request. Inr (Some (js ''Nice code, {userName}!''))),
            JSON_parse = (\<lambda>text. Inl SyntaxError),
            math_random = 0.5, hset_rejected = True \<rparr>
          (raw_message (js ''hello'') (js ''u1'') (js ''Tester'')) initial_bot)
   = Inl RedisError
   \<and> fst (handleMessage
          \<lparr> clock_parse = 0, clock_limit = 0, clock_metrics = 0,
            openai_create = (\<lambda>request. Inr (Some (js ''Nice code, {userName}!''))),
            JSON_parse = (\<lambda>text. Inl SyntaxError),
            math_random = 0.5, hset_rejected = True \<rparr>
          (raw_message (js ''hello'') (js ''u1'') (js ''Tester'')) initial_bot)
     = Inr (js ''Error processing message. But hey, at least it's not as bad as using PHP! ''
            @ emoji_wink)"
  by (simp add: handleMessage_def handleMessage_try_def MessageSchema_parse_def raw_message_def
        get_prop_def js_def z_string_min_max_def z_string_def z_array_string_optional_def
        z_number_default_def checkRateLimit_def userRequests_def initial_bot_def
        MAX_REQUESTS_PER_MINUTE_def analyzeMessage_def analysis_request_def generateResponse_def
        selectPersonalityTrait_def initializeState_def PERSONALITY_TRAITS_def
        getFallbackAnalysis_def trait_matches_def Let_def updateMetrics_def or_string_def)

text \<open>And when nothing fails, the backend's text is returned with the user's name in it.\<close>

lemma handleMessage_success:
  "fst (handleMessage
          \<lparr> clock_parse = 0, clock_limit = 0, clock_metrics = 0,
            openai_create = (\<lambda>request. Inr (Some (js ''Nice code, {userName}!''))),
            JSON_parse = (\<lambda>text. Inl SyntaxError),
            math_random = 0.5, hset_rejected = False \<rparr>
          (raw_message (js ''hello'') (js ''u1'') (js ''Tester'')) initial_bot)
     = Inr (js ''Nice code, Tester!'')"
  by (simp add: handleMessage_def handleMessage_try_def MessageSchema_parse_def raw_message_def
        get_prop_def js_def z_string_min_max_def z_string_def z_array_string_optional_def
        z_number_default_def checkRateLimit_def userRequests_def initial_bot_def
        MAX_REQUESTS_PER_MINUTE_def analyzeMessage_def analysis_request_def generateResponse_def
        selectPersonalityTrait_def initializeState_def PERSONALITY_TRAITS_def
        getFallbackAnalysis_def trait_matches_def Let_def updateMetrics_def or_string_def
        processResponse_def replace_def startsWith_def trim_def is_space_def)

subsection \<open>The Redis-backed rate limiter and storage faults\<close>

lemma incrementCounter_try_logged:
  "logged_ix (snd (incrementCounter_try now key self)) = logged_ix self"
  by (simp add: incrementCounter_try_def split: prod.splits sum.splits)

text \<open>
  A fault inside the \<^verbatim>\<open>try\<close> block of \<^verbatim>\<open>incrementCounter\<close> (the increment is rejected, or
  the expiry it sets after a first increment is) is caught: \<^verbatim>\<open>checkRateLimit\<close> of index.ts
  returns \<^verbatim>\<open>true\<close>, and the error is written to the log.
\<close>

lemma incrementCounter_fault_admits:
  assumes "fst (incrementCounter_try now (js ''ratelimit:'' @ uid) self) = Inl e"
  shows "fst (checkRateLimit_ix now uid self) = Inr True
         \<and> logged_ix (snd (checkRateLimit_ix now uid self))
           = logged_ix self @ [(js ''Redis increment error:'', e)]"
proof -
  obtain r self' where t: "incrementCounter_try now (js ''ratelimit:'' @ uid) self = (r, self')"
    by (cases "incrementCounter_try now (js ''ratelimit:'' @ uid) self")
  with assms have r: "r = Inl e" by simp
  from t incrementCounter_try_logged[of now "js ''ratelimit:'' @ uid" self]
  have "logged_ix self' = logged_ix self" by simp
  with t r show ?thesis
    by (simp add: checkRateLimit_ix_def incrementCounter_def Let_def)
qed

text \<open>A server that rejects the next command: the request is admitted and the error logged.\<close>

lemma incrementCounter_fault_admits_example:
  "fst (incrementCounter_try 0 (js ''ratelimit:'' @ js ''u1'')
          (initial_bot_ix 0\<lparr>redis_ix := \<lparr> entries = Map.empty, outcomes = [True] \<rparr>\<rparr>))
   = Inl RedisError
   \<and> fst (checkRateLimit_ix 0 (js ''u1'')
          (initial_bot_ix 0\<lparr>redis_ix := \<lparr> entries = Map.empty, outcomes = [True] \<rparr>\<rparr>))
     = Inr True
   \<and> logged_ix (snd (checkRateLimit_ix 0 (js ''u1'')
          (initial_bot_ix 0\<lparr>redis_ix := \<lparr> entries = Map.empty, outcomes = [True] \<rparr>\<rparr>)))
     = [(js ''Redis increment error:'', RedisError)]"
  using incrementCounter_fault_admits
          [of 0 "js ''u1''"
              "initial_bot_ix 0\<lparr>redis_ix := \<lparr> entries = Map.empty, outcomes = [True] \<rparr>\<rparr>"
              RedisError]
  by (simp add: incrementCounter_try_def redis_incr_def next_outcome_def initial_bot_ix_def)

text \<open>
  Claim C8 does not hold of the code. \<^verbatim>\<open>checkRateLimit\<close> repeats the \<^verbatim>\<open>expire\<close> of a first
  request outside any \<^verbatim>\<open>try\<close>. On the first request of a user, let the server accept the
  increment and the expiry inside \<^verbatim>\<open>incrementCounter\<close> and reject the third command: the
  check does not admit the message, it throws the storage error, and nothing is logged.
\<close>

theorem checkRateLimit_ix_outer_expire_throws:
  "fst (incrementCounter 0 (js ''ratelimit:'' @ js ''u1'')
          (initial_bot_ix 0\<lparr>redis_ix := \<lparr> entries = Map.empty,
                                           outcomes = [False, False, True] \<rparr>\<rparr>))
   = 1
   \<and> fst (checkRateLimit_ix 0 (js ''u1'')
          (initial_bot_ix 0\<lparr>redis_ix := \<lparr> entries = Map.empty,
                                           outcomes = [False, False, True] \<rparr>\<rparr>))
     = Inl RedisError
   \<and> logged_ix (snd (checkRateLimit_ix 0 (js ''u1'')
          (initial_bot_ix 0\<lparr>redis_ix := \<lparr> entries = Map.empty,
                                           outcomes = [False, False, True] \<rparr>\<rparr>)))
     = []"
  by (simp add: checkRateLimit_ix_def incrementCounter_def incrementCounter_try_def
        redis_incr_def redis_expire_def redis_lookup_def next_outcome_def initial_bot_ix_def
        Let_def)

subsection \<open>The profile store\<close>

text \<open>When neither the cache nor the store has a value for the user, \<^verbatim>\<open>getUserProfile\<close>
  returns the default profile of that user, stamped with the clock, caches it and sends it
  to the store with thirty days to live.\<close>

lemma getUserProfile_creates_default:
  assumes "userProfiles self uid = None" and "redis_get env (js ''user:'' @ uid) = Inr None"
  shows "getUserProfile env uid self
         = (Profile
              \<lparr> userId_up = uid, userName_up = [], sensitivityLevel = 0.5,
                pastInteractions = [], preferredTopics = [], lastInteraction = clock_p4 env,
                totalInteractions_up = 0, averageSentiment = 0,
                responsePreferences =
                  \<lparr> witLevel = 0.5, sarcasmLevel = 0.5, technicalLevel = 0.5 \<rparr> \<rparr>,
            self\<lparr>userProfiles := (userProfiles self)(uid \<mapsto> Profile
                     \<lparr> userId_up = uid, userName_up = [], sensitivityLevel = 0.5,
                       pastInteractions = [], preferredTopics = [],
                       lastInteraction = clock_p4 env,
                       totalInteractions_up = 0, averageSentiment = 0,
                       responsePreferences =
                         \<lparr> witLevel = 0.5, sarcasmLevel = 0.5, technicalLevel = 0.5 \<rparr> \<rparr>),
                 redis_set_sent := redis_set_sent self
                   @ [(js ''user:'' @ uid,
                       JSON_stringify env
                         \<lparr> userId_up = uid, userName_up = [], sensitivityLevel = 0.5,
                           pastInteractions = [], preferredTopics = [],
                           lastInteraction = clock_p4 env,
                           totalInteractions_up = 0, averageSentiment = 0,
                           responsePreferences =
                             \<lparr> witLevel = 0.5, sarcasmLevel = 0.5, technicalLevel = 0.5 \<rparr> \<rparr>,
                       2592000)]\<rparr>)"
  using assms
  by (simp add: getUserProfile_def createNewUserProfile_def Let_def
        DEFAULT_SENSITIVITY_LEVEL_def USER_PROFILE_EXPIRY_def)

text \<open>Every call leaves what it returns in the cache, and a truthy cache entry is returned
  as it is. So a second call repeats the first whenever the first returned a truthy value,
  which every profile is.\<close>

lemma getUserProfile_cached:
  "userProfiles (snd (getUserProfile env uid self)) uid = Some (fst (getUserProfile env uid self))"
  by (simp add: getUserProfile_def createNewUserProfile_def Let_def
        split: option.splits sum.splits)

lemma getUserProfile_hit:
  assumes "userProfiles self uid = Some p" and "truthy_profile p"
  shows "getUserProfile env uid self = (p, self)"
  using assms by (simp add: getUserProfile_def)

lemma getUserProfile_idempotent_when_truthy:
  assumes "truthy_profile (fst (getUserProfile env uid self))"
  shows "getUserProfile env' uid (snd (getUserProfile env uid self))
         = (fst (getUserProfile env uid self), snd (getUserProfile env uid self))"
  using getUserProfile_cached assms by (rule getUserProfile_hit)


subsection \<open>Commands\<close>

text \<open>
  Claim C10, as amended. For every message whose content starts with the command prefix,
  \<^verbatim>\<open>handleMessage\<close> of index.ts leaves the whole object as it was, and with it the mood
  level, the short-term and long-term memory and the trait levels. Its reply is that of
  \<^verbatim>\<open>handleCommand\<close> when the user is not in cooldown, and \<^verbatim>\<open>null\<close> when the user is.
\<close>

theorem command_leaves_state_unchanged:
  assumes "startsWith (content message) (commandPrefix (state_ix self))"
  shows "handleMessage_ix numToString now now' rnd message self
         = (Inr (if isUserInCooldown now (userId message) self then None
                 else Some (handleCommand numToString message self)),
            self)"
  using assms by (simp add: handleMessage_ix_def handleMessage_try_ix_def)

text \<open>The command \<^verbatim>\<open>!mood\<close> on the bot as constructed, with a number printer that prints
  every number as \<^verbatim>\<open>0\<close> (the mood level is 0).\<close>

theorem command_leaves_state_unchanged_witness:
  "startsWith (js ''!mood'') (commandPrefix (state_ix (initial_bot_ix 0)))
   \<and> handleMessage_ix (\<lambda>x. js ''0'') 2000 2001 0
        \<lparr> content = js ''!mood'', userId = js ''u1'', userName = js ''Tester'',
          mentions_ix = [] \<rparr>
        (initial_bot_ix 0)
     = (Inr (Some (js ''Current mood level: 0'')), initial_bot_ix 0)"
  using command_leaves_state_unchanged
          [of "\<lparr> content = js ''!mood'', userId = js ''u1'', userName = js ''Tester'',
                 mentions_ix = [] \<rparr>"
              "initial_bot_ix 0" "\<lambda>x. js ''0''" 2000 2001 0]
  by (simp add: startsWith_def initial_bot_ix_def initial_state_ix_def js_def
        isUserInCooldown_def handleCommand_def trim_def is_space_def toLowerCase_def)

text \<open>The user answered at 1001 ms sends \<^verbatim>\<open>!mood\<close> at 2000 ms: the reply is \<^verbatim>\<open>null\<close>,
  not the answer of the command handler.\<close>

theorem command_in_cooldown_unanswered:
  "startsWith (js ''!mood'')
     (commandPrefix (state_ix (snd (handleMessage_ix (\<lambda>x. js ''0'') 1000 1001 0
                  \<lparr> content = js ''hello'', userId = js ''u1'', userName = js ''Tester'',
                    mentions_ix = [] \<rparr>
                  (initial_bot_ix 0)))))
   \<and> fst (handleMessage_ix (\<lambda>x. js ''0'') 2000 2001 0
          \<lparr> content = js ''!mood'', userId = js ''u1'', userName = js ''Tester'',
            mentions_ix = [] \<rparr>
          (snd (handleMessage_ix (\<lambda>x. js ''0'') 1000 1001 0
                  \<lparr> content = js ''hello'', userId = js ''u1'', userName = js ''Tester'',
                    mentions_ix = [] \<rparr>
                  (initial_bot_ix 0))))
     = Inr None"
proof -
  have cd: "isUserInCooldown 2000 (js ''u1'') (setCooldown 1001 (js ''u1'') self)" for self
    by (rule setCooldown_isUserInCooldown) (simp_all add: cooldownDuration_def)
  have pre: "startsWith (js ''!mood'') (commandPrefix (state_ix (initial_bot_ix 0)))"
    by (simp add: startsWith_def initial_bot_ix_def initial_state_ix_def js_def)
  show ?thesis
    unfolding hello_answered
    using cd pre
    by (simp add: handleMessage_ix_def handleMessage_try_ix_def commandPrefix_kept)
qed

end
